theory Spec2Isabelle
  imports Complex_Main
begin

section \<open>Floating-point values\<close>

text \<open>
  Python floats are IEEE 754 doubles. A value is a real number that a double holds, one
  of the two infinities, or NaN; the two zeros are one value. Every arithmetic
  operation on finite values rounds its exact result to the nearest double, ties to
  the even significand, and overflows to an infinity. Dividing by a zero float raises
  ZeroDivisionError in Python, so division returns an error value there.
\<close>

datatype pyfloat = Finite real | PosInf | NegInf | NaN

datatype py_error = ZeroDivisionError | ValueError | IndexError | OverflowError

fun is_finite :: "pyfloat \<Rightarrow> bool" where
  "is_finite (Finite r) = True"
| "is_finite PosInf = False"
| "is_finite NegInf = False"
| "is_finite NaN = False"

text \<open>The comparison \<open>x > 0\<close> of the source; false on NaN.\<close>

fun gt_zero :: "pyfloat \<Rightarrow> bool" where
  "gt_zero (Finite r) = (0 < r)"
| "gt_zero PosInf = True"
| "gt_zero NegInf = False"
| "gt_zero NaN = False"

text \<open>The comparison \<open>x <= 0\<close>; false on NaN as well.\<close>

fun le_zero :: "pyfloat \<Rightarrow> bool" where
  "le_zero (Finite r) = (r \<le> 0)"
| "le_zero PosInf = False"
| "le_zero NegInf = True"
| "le_zero NaN = False"

text \<open>\<open>abs(x)\<close>\<close>

fun fl_abs :: "pyfloat \<Rightarrow> pyfloat" where
  "fl_abs (Finite r) = Finite \<bar>r\<bar>"
| "fl_abs PosInf = PosInf"
| "fl_abs NegInf = PosInf"
| "fl_abs NaN = NaN"

text \<open>The comparison \<open>a < b\<close>; false whenever a NaN is involved.\<close>

fun fl_less :: "pyfloat \<Rightarrow> pyfloat \<Rightarrow> bool" where
  "fl_less (Finite a) (Finite b) = (a < b)"
| "fl_less NaN b = False"
| "fl_less a NaN = False"
| "fl_less a NegInf = False"
| "fl_less PosInf b = False"
| "fl_less NegInf b = True"
| "fl_less a PosInf = True"

text \<open>The power of two \<open>2\<^sup>e\<close> for an integer exponent.\<close>

definition pow2 :: "int \<Rightarrow> real" where
  "pow2 e = (if 0 \<le> e then 2 ^ nat e else 1 / 2 ^ nat (- e))"

text \<open>
  The exponent of the binade of a positive real: the \<open>e\<close> with \<open>2\<^sup>e \<le> x < 2\<^sup>e\<^sup>+\<^sup>1\<close>, found by
  halving or doubling, and kept between \<open>-1022\<close>, the exponent of the subnormal
  numbers, and \<open>1024\<close>, where every value overflows.
\<close>

fun bin_up :: "nat \<Rightarrow> real \<Rightarrow> int \<Rightarrow> int" where
  "bin_up 0 x e = e"
| "bin_up (Suc k) x e = (if 2 \<le> x then bin_up k (x / 2) (e + 1) else e)"

fun bin_down :: "nat \<Rightarrow> real \<Rightarrow> int \<Rightarrow> int" where
  "bin_down 0 x e = e"
| "bin_down (Suc k) x e = (if x < 1 then bin_down k (x * 2) (e - 1) else e)"

definition binade :: "real \<Rightarrow> int" where
  "binade x = (if 1 \<le> x then bin_up 1024 x 0 else bin_down 1022 x 0)"

text \<open>The nearest integer, a tie going to the even one.\<close>

definition round_half_even :: "real \<Rightarrow> int" where
  "round_half_even q =
     (let f = \<lfloor>q\<rfloor>; d = q - of_int f
      in if d < 1 / 2 then f else if 1 / 2 < d then f + 1 else if even f then f else f + 1)"

text \<open>
  Rounding a real to a double: a significand of 53 bits, so the spacing of the doubles
  around \<open>x\<close> is \<open>2\<^sup>e\<^sup>-\<^sup>5\<^sup>2\<close> for the binade \<open>e\<close> of \<open>x\<close>; a result in the binade 1024, that
  is of magnitude \<open>2\<^sup>1\<^sup>0\<^sup>2\<^sup>4\<close> or more, is an infinity.
\<close>

definition fl_round :: "real \<Rightarrow> pyfloat" where
  "fl_round x =
     (if x = 0 then Finite 0
      else
        (let ulp = pow2 (binade \<bar>x\<bar> - 52);
             y = of_int (round_half_even (x / ulp)) * ulp
         in if binade \<bar>y\<bar> = 1024 then (if 0 < y then PosInf else NegInf)
            else Finite y))"

text \<open>Float division \<open>a / b\<close>.\<close>

fun truediv :: "pyfloat \<Rightarrow> pyfloat \<Rightarrow> py_error + pyfloat" where
  "truediv NaN (Finite b) = (if b = 0 then Inl ZeroDivisionError else Inr NaN)"
| "truediv (Finite a) (Finite b) =
     (if b = 0 then Inl ZeroDivisionError else Inr (fl_round (a / b)))"
| "truediv PosInf (Finite b) =
     (if b = 0 then Inl ZeroDivisionError else if 0 < b then Inr PosInf else Inr NegInf)"
| "truediv NegInf (Finite b) =
     (if b = 0 then Inl ZeroDivisionError else if 0 < b then Inr NegInf else Inr PosInf)"
| "truediv (Finite a) PosInf = Inr (Finite 0)"
| "truediv (Finite a) NegInf = Inr (Finite 0)"
| "truediv a b = Inr NaN"

text \<open>Float multiplication \<open>a * b\<close>.\<close>

fun fl_mul :: "pyfloat \<Rightarrow> pyfloat \<Rightarrow> pyfloat" where
  "fl_mul (Finite a) (Finite b) = fl_round (a * b)"
| "fl_mul NaN b = NaN"
| "fl_mul a NaN = NaN"
| "fl_mul (Finite a) PosInf = (if a = 0 then NaN else if 0 < a then PosInf else NegInf)"
| "fl_mul (Finite a) NegInf = (if a = 0 then NaN else if 0 < a then NegInf else PosInf)"
| "fl_mul PosInf (Finite b) = (if b = 0 then NaN else if 0 < b then PosInf else NegInf)"
| "fl_mul NegInf (Finite b) = (if b = 0 then NaN else if 0 < b then NegInf else PosInf)"
| "fl_mul PosInf PosInf = PosInf"
| "fl_mul PosInf NegInf = NegInf"
| "fl_mul NegInf PosInf = NegInf"
| "fl_mul NegInf NegInf = PosInf"

text \<open>Float addition \<open>a + b\<close> and subtraction \<open>a - b\<close>.\<close>

fun fl_add :: "pyfloat \<Rightarrow> pyfloat \<Rightarrow> pyfloat" where
  "fl_add (Finite a) (Finite b) = fl_round (a + b)"
| "fl_add NaN b = NaN"
| "fl_add a NaN = NaN"
| "fl_add PosInf NegInf = NaN"
| "fl_add NegInf PosInf = NaN"
| "fl_add PosInf b = PosInf"
| "fl_add NegInf b = NegInf"
| "fl_add a PosInf = PosInf"
| "fl_add a NegInf = NegInf"

fun fl_neg :: "pyfloat \<Rightarrow> pyfloat" where
  "fl_neg (Finite r) = Finite (- r)"
| "fl_neg PosInf = NegInf"
| "fl_neg NegInf = PosInf"
| "fl_neg NaN = NaN"

definition fl_sub :: "pyfloat \<Rightarrow> pyfloat \<Rightarrow> pyfloat" where
  "fl_sub a b = fl_add a (fl_neg b)"

section \<open>Measurement pipeline (graph_plotter.py)\<close>

text \<open>\<open>UTMConfig.MAX_PLOT_POINTS\<close> of config.py.\<close>

definition MAX_PLOT_POINTS :: nat where
  "MAX_PLOT_POINTS = 1000"

text \<open>
  The data fields of \<open>MaterialTestPlotter\<close>: six parallel lists, the test parameters,
  the analysis results and the recording flag.
\<close>

record plotter =
  time_data :: "pyfloat list"
  load_data :: "pyfloat list"
  position_data :: "pyfloat list"
  stress_data :: "pyfloat list"
  strain_data :: "pyfloat list"
  displacement_data :: "pyfloat list"
  specimen_area :: pyfloat
  gauge_length :: pyfloat
  youngs_modulus :: pyfloat
  yield_strength :: pyfloat
  ultimate_strength :: pyfloat
  fracture_strength :: pyfloat
  elongation_at_break :: pyfloat
  is_plotting :: bool

text \<open>\<open>load / self.specimen_area if self.specimen_area > 0 else 0\<close>\<close>

definition calc_stress :: "pyfloat \<Rightarrow> pyfloat \<Rightarrow> py_error + pyfloat" where
  "calc_stress load area = (if gt_zero area then truediv load area else Inr (Finite 0))"

text \<open>\<open>(position / self.gauge_length) * 100 if self.gauge_length > 0 else 0\<close>\<close>

definition calc_strain :: "pyfloat \<Rightarrow> pyfloat \<Rightarrow> py_error + pyfloat" where
  "calc_strain position gauge =
     (if gt_zero gauge then
        (case truediv position gauge of
           Inl e \<Rightarrow> Inl e
         | Inr q \<Rightarrow> Inr (fl_mul q (Finite 100)))
      else Inr (Finite 0))"

text \<open>
  \<open>MaterialTestPlotter.add_data_point\<close>. The first three appends happen before the
  derived values are computed, so an exception there would leave them in place; the
  result is the error or the updated plotter.
\<close>

definition add_data_point :: "pyfloat \<Rightarrow> pyfloat \<Rightarrow> pyfloat \<Rightarrow> plotter \<Rightarrow> py_error + plotter" where
  "add_data_point timestamp load position p =
     (if is_plotting p then
        (let p1 = p\<lparr>time_data := time_data p @ [timestamp],
                    load_data := load_data p @ [load],
                    position_data := position_data p @ [position]\<rparr>
         in case calc_stress load (specimen_area p1) of
              Inl e \<Rightarrow> Inl e
            | Inr stress \<Rightarrow>
                (case calc_strain position (gauge_length p1) of
                   Inl e \<Rightarrow> Inl e
                 | Inr strain \<Rightarrow>
                     Inr (p1\<lparr>stress_data := stress_data p1 @ [stress],
                              strain_data := strain_data p1 @ [strain],
                              displacement_data := displacement_data p1 @ [position]\<rparr>)))
      else Inr p)"

text \<open>
  The slice \<open>xs[-n:]\<close> of Python: the last \<open>n\<close> elements, except that \<open>xs[-0:]\<close> is
  \<open>xs[0:]\<close>, the whole list.
\<close>

definition last_n :: "nat \<Rightarrow> 'a list \<Rightarrow> 'a list" where
  "last_n n xs = (if n = 0 then xs else drop (length xs - n) xs)"

text \<open>
  One iteration of \<open>MaterialTestPlotter._plot_update_loop\<close>, with the capacity
  \<open>max_points\<close> read from the configuration, the clock reading and the controller's
  latest load and position as arguments.
\<close>

definition plot_update_step ::
  "nat \<Rightarrow> pyfloat \<Rightarrow> pyfloat \<Rightarrow> pyfloat \<Rightarrow> plotter \<Rightarrow> py_error + plotter" where
  "plot_update_step max_points current_time load position p =
     (let p1 = p\<lparr>time_data := time_data p @ [current_time],
                 load_data := load_data p @ [load],
                 position_data := position_data p @ [position]\<rparr>
      in case calc_stress load (specimen_area p1) of
           Inl e \<Rightarrow> Inl e
         | Inr stress \<Rightarrow>
             (case calc_strain position (gauge_length p1) of
                Inl e \<Rightarrow> Inl e
              | Inr strain \<Rightarrow>
                  (let p2 = p1\<lparr>stress_data := stress_data p1 @ [stress],
                               strain_data := strain_data p1 @ [strain],
                               displacement_data := displacement_data p1 @ [position]\<rparr>
                   in if length (time_data p2) > max_points then
                        Inr (p2\<lparr>time_data := last_n max_points (time_data p2),
                                 load_data := last_n max_points (load_data p2),
                                 position_data := last_n max_points (position_data p2),
                                 stress_data := last_n max_points (stress_data p2),
                                 strain_data := last_n max_points (strain_data p2),
                                 displacement_data := last_n max_points (displacement_data p2)\<rparr>)
                      else Inr p2)))"

text \<open>A plotter whose six lists each hold \<open>n\<close> copies of one sample.\<close>

definition filled_plotter :: "nat \<Rightarrow> plotter" where
  "filled_plotter n =
     \<lparr>time_data = replicate n (Finite 0), load_data = replicate n (Finite 0),
      position_data = replicate n (Finite 0), stress_data = replicate n (Finite 0),
      strain_data = replicate n (Finite 0), displacement_data = replicate n (Finite 0),
      specimen_area = Finite 1, gauge_length = Finite 25,
      youngs_modulus = Finite 0, yield_strength = Finite 0, ultimate_strength = Finite 0,
      fracture_strength = Finite 0, elongation_at_break = Finite 0, is_plotting = True\<rparr>"

section \<open>Line framer (serial_handler.py)\<close>

text \<open>The line boundary \<open>'\\n'\<close>.\<close>

definition NL :: char where
  "NL = CHR 0x0A"

text \<open>
  \<open>str.isspace\<close> on the code points below 256, which is what a \<open>char\<close> holds here.
\<close>

definition isspace :: "char \<Rightarrow> bool" where
  "isspace c = (let n = (of_char c :: nat)
                in (9 \<le> n \<and> n \<le> 13) \<or> (28 \<le> n \<and> n \<le> 32) \<or> n = 133 \<or> n = 160)"

text \<open>\<open>str.strip()\<close>: leading and trailing whitespace removed.\<close>

definition strip :: "string \<Rightarrow> string" where
  "strip s = rev (dropWhile isspace (rev (dropWhile isspace s)))"

text \<open>
  A call of \<open>data_callback\<close>, tagged with its call site: \<open>Line\<close> is the call inside
  the \<open>while\<close> loop, \<open>Raw\<close> the call after it.
\<close>

datatype delivery = Line string | Raw string

text \<open>
  The loop \<open>while '\\n' in self.receive_buffer\<close>: \<open>split('\\n', 1)\<close> cuts the buffer at
  its first boundary. \<open>cb\<close> says whether a callback is registered. Returns the calls
  made and the buffer left.
\<close>

function split_loop :: "bool \<Rightarrow> string \<Rightarrow> delivery list \<times> string" where
  "split_loop cb buf =
     (if NL \<in> set buf then
        (let line = takeWhile (\<lambda>c. c \<noteq> NL) buf;
             rest = tl (dropWhile (\<lambda>c. c \<noteq> NL) buf);
             line' = strip line;
             (ds, b) = split_loop cb rest
         in ((if line' \<noteq> [] \<and> cb then [Line line'] else []) @ ds, b))
      else ([], buf))"
  by pat_completeness auto
termination
proof (relation "measure (\<lambda>(cb, buf). length buf)", goal_cases)
  case 1
  show ?case by simp
next
  case (2 cb buf line rest line')
  then have "dropWhile (\<lambda>c. c \<noteq> NL) buf \<noteq> []" by simp
  then have "length (tl (dropWhile (\<lambda>c. c \<noteq> NL) buf)) < length (dropWhile (\<lambda>c. c \<noteq> NL) buf)"
    by (cases "dropWhile (\<lambda>c. c \<noteq> NL) buf") auto
  also have "\<dots> \<le> length buf" by (rule length_dropWhile_le)
  finally show ?case using 2 by simp
qed

text \<open>
  \<open>SerialHandler._process_received_data\<close>, on the buffer and the chunk received. The
  callback of this program, \<open>handle_serial_data\<close>, catches its own exceptions, so no
  call interrupts the loop.
\<close>

definition process_received_data :: "bool \<Rightarrow> string \<Rightarrow> string \<Rightarrow> delivery list \<times> string" where
  "process_received_data cb buffer data =
     (let (ds, rest) = split_loop cb (buffer @ data)
      in (ds @ (if data \<noteq> [] \<and> cb then [Raw data] else []), rest))"

text \<open>A sequence of chunks, one call each.\<close>

fun feed_all :: "bool \<Rightarrow> string \<Rightarrow> string list \<Rightarrow> delivery list \<times> string" where
  "feed_all cb buffer [] = ([], buffer)"
| "feed_all cb buffer (data # chunks) =
     (let (ds, rest) = process_received_data cb buffer data;
          (ds', rest') = feed_all cb rest chunks
      in (ds @ ds', rest'))"

fun payload :: "delivery \<Rightarrow> string" where
  "payload (Line s) = s"
| "payload (Raw s) = s"

fun line_frames :: "delivery list \<Rightarrow> string list" where
  "line_frames [] = []"
| "line_frames (Line s # ds) = s # line_frames ds"
| "line_frames (Raw s # ds) = line_frames ds"



section \<open>Serial handler and controller (serial_handler.py, utm_controller.py)\<close>

text \<open>
  The controller owns the serial handler and registers its two callbacks on it
  (\<open>setup_serial_callbacks\<close>), so the handler's methods reach back into the controller.
  Both objects are modelled in one state, together with what they do to the world:
  the byte strings written to the port, the dialogs shown, the sleeps and the attempts
  to open the port, and the reconnection threads started.
\<close>

text \<open>
  A \<open>serial.Serial\<close> object as the handler holds it: whether the port is open, and
  whether writing to it and closing it raise.
\<close>

datatype connection = Connection (is_open: bool) (write_raises: bool) (close_raises: bool)

datatype dialog =
    ShowError string string
  | ShowWarning string string
  | ShowInfo string string
  | AskYesNo string string

datatype io_event = Sleep nat | OpenPort string nat

record controller =
  machine_state :: string
  load_value :: pyfloat
  position_value :: pyfloat
  is_connected :: bool
  connection :: "connection option"
  handler_connected :: bool
  port :: "string option"
  baudrate :: nat
  running :: bool
  receive_buffer :: string
  graph_plotter :: plotter
  wire :: "string list"
  dialogs :: "dialog list"
  io_trace :: "io_event list"
  reconnect_threads :: nat
  highlighted :: "string list"
  current_speed :: int

text \<open>\<open>UTMController.handle_connection_change\<close>, the connection callback.\<close>

definition handle_connection_change :: "bool \<Rightarrow> controller \<Rightarrow> controller" where
  "handle_connection_change conn c =
     (if conn then c\<lparr>is_connected := conn, machine_state := ''Connected''\<rparr>
      else c\<lparr>is_connected := conn, machine_state := ''Disconnected''\<rparr>)"

text \<open>\<open>SerialHandler.is_connected\<close>\<close>

definition handler_is_connected :: "controller \<Rightarrow> bool" where
  "handler_is_connected c =
     (handler_connected c \<and> (case connection c of None \<Rightarrow> False | Some k \<Rightarrow> is_open k))"

text \<open>
  \<open>SerialHandler._handle_connection_error\<close>. Starting the thread that runs
  \<open>_attempt_reconnection\<close> is counted in \<open>reconnect_threads\<close>.
\<close>

definition handle_connection_error :: "controller \<Rightarrow> controller" where
  "handle_connection_error c =
     (let c1 = handle_connection_change False (c\<lparr>handler_connected := False\<rparr>);
          c2 = c1\<lparr>connection := None\<rparr>
      in c2\<lparr>reconnect_threads := reconnect_threads c2 + 1\<rparr>)"

text \<open>
  \<open>SerialHandler.send_command\<close>: the command and a newline are written to the port.
  Not being connected and a failing write both end in the exception handler.
\<close>

definition send_command :: "string \<Rightarrow> controller \<Rightarrow> bool \<times> controller" where
  "send_command command c =
     (if \<not> handler_is_connected c then (False, handle_connection_error c)
      else case connection c of
             None \<Rightarrow> (False, handle_connection_error c)
           | Some k \<Rightarrow>
               if write_raises k then (False, handle_connection_error c)
               else (True, c\<lparr>wire := wire c @ [command @ [NL]]\<rparr>))"

text \<open>
  \<open>SerialHandler.disconnect\<close>. When closing the port raises, the exception handler
  logs it and the rest of the method, the connection callback included, is skipped.
\<close>

definition disconnect :: "controller \<Rightarrow> controller" where
  "disconnect c =
     (let c1 = c\<lparr>running := False, handler_connected := False\<rparr>
      in case connection c1 of
           None \<Rightarrow> handle_connection_change False c1
         | Some k \<Rightarrow>
             if is_open k then
               (if close_raises k then c1
                else handle_connection_change False (c1\<lparr>connection := None\<rparr>))
             else handle_connection_change False c1)"

text \<open>
  What \<open>serial.Serial(...)\<close> does in \<open>connect\<close>: it raises, or it returns a connection.
\<close>

datatype open_result = OpenRaises | Opened connection

text \<open>
  \<open>SerialHandler.connect\<close>, with the outcome of opening the port as an argument.
  Returns what the method returns and the new state.
\<close>

definition connect :: "string \<Rightarrow> nat \<Rightarrow> open_result \<Rightarrow> controller \<Rightarrow> bool \<times> controller" where
  "connect p baud res c =
     (let c1 = (if handler_connected c then disconnect c else c);
          c2 = c1\<lparr>port := Some p, baudrate := baud,
                  io_trace := io_trace c1 @ [OpenPort p baud]\<rparr>
      in case res of
           OpenRaises \<Rightarrow>
             (False, handle_connection_change False (c2\<lparr>handler_connected := False\<rparr>))
         | Opened k \<Rightarrow>
             (let c3 = c2\<lparr>connection := Some k, io_trace := io_trace c2 @ [Sleep 2]\<rparr>
              in if is_open k then
                   (True, handle_connection_change True
                            (c3\<lparr>handler_connected := True, running := True\<rparr>))
                 else
                   (False, handle_connection_change False (c3\<lparr>handler_connected := False\<rparr>))))"

text \<open>
  The loop of \<open>SerialHandler._attempt_reconnection\<close>: \<open>max_attempts = 3\<close>,
  \<open>time.sleep(2)\<close> before each call of \<open>connect\<close>. \<open>env n\<close> is the outcome of opening
  the port at the \<open>n\<close>-th attempt.
\<close>

function reconnection_loop ::
  "(nat \<Rightarrow> open_result) \<Rightarrow> string \<Rightarrow> nat \<Rightarrow> controller \<Rightarrow> controller" where
  "reconnection_loop env p attempt c =
     (if attempt < 3 \<and> \<not> handler_connected c then
        (let attempt' = attempt + 1;
             c1 = c\<lparr>io_trace := io_trace c @ [Sleep 2]\<rparr>;
             (ok, c2) = connect p (baudrate c1) (env attempt') c1
         in if ok then c2 else reconnection_loop env p attempt' c2)
      else c)"
  by pat_completeness auto
termination
  by (relation "measure (\<lambda>(env, p, attempt, c). 3 - attempt)") auto

text \<open>\<open>SerialHandler._attempt_reconnection\<close>; \<open>if not self.port: return\<close> comes first.\<close>

definition attempt_reconnection :: "(nat \<Rightarrow> open_result) \<Rightarrow> controller \<Rightarrow> controller" where
  "attempt_reconnection env c =
     (case port c of
        None \<Rightarrow> c
      | Some p \<Rightarrow> if p = [] then c else reconnection_loop env p 0 c)"

subsection \<open>Operator commands\<close>

text \<open>\<open>UTMController.open_command\<close>; the result of \<open>send_command\<close> is not looked at.\<close>

definition open_command :: "controller \<Rightarrow> controller" where
  "open_command c =
     (if is_connected c then (snd (send_command ''1'' c))\<lparr>machine_state := ''Opening''\<rparr>
      else c\<lparr>dialogs := dialogs c @ [ShowError ''Error'' ''Not connected to Arduino'']\<rparr>)"

definition close_command :: "controller \<Rightarrow> controller" where
  "close_command c =
     (if is_connected c then (snd (send_command ''2'' c))\<lparr>machine_state := ''Closing''\<rparr>
      else c\<lparr>dialogs := dialogs c @ [ShowError ''Error'' ''Not connected to Arduino'']\<rparr>)"

definition stop_command :: "controller \<Rightarrow> controller" where
  "stop_command c =
     (if is_connected c then (snd (send_command ''0'' c))\<lparr>machine_state := ''Stopped''\<rparr>
      else c\<lparr>dialogs := dialogs c @ [ShowError ''Error'' ''Not connected to Arduino'']\<rparr>)"

definition zero_command :: "controller \<Rightarrow> controller" where
  "zero_command c =
     (if is_connected c then snd (send_command ''Z'' c)
      else c\<lparr>dialogs := dialogs c @ [ShowError ''Error'' ''Not connected to Arduino'']\<rparr>)"

text \<open>
  \<open>UTMController.turboset_command\<close>; \<open>confirm\<close> is the operator's answer to the
  confirmation dialog.
\<close>

definition turboset_command :: "bool \<Rightarrow> controller \<Rightarrow> controller" where
  "turboset_command confirm c =
     (if \<not> is_connected c then
        c\<lparr>dialogs := dialogs c @ [ShowError ''Error'' ''Not connected to Arduino'']\<rparr>
      else
        (let c1 = c\<lparr>dialogs := dialogs c @ [AskYesNo ''Confirm'' ''Start Turboset automated routine?'']\<rparr>
         in if confirm then (snd (send_command ''T'' c1))\<lparr>machine_state := ''Turboset Running''\<rparr>
            else c1))"

text \<open>\<open>UTMController.send_custom_command\<close> asks the handler whether it is connected.\<close>

definition send_custom_command :: "string \<Rightarrow> controller \<Rightarrow> controller" where
  "send_custom_command command c =
     (if handler_is_connected c then snd (send_command command c)
      else c\<lparr>dialogs := dialogs c @
             [ShowWarning ''Not Connected'' ''Please connect to a device first'']\<rparr>)"

text \<open>\<open>UTMController.test_connection\<close>\<close>

definition test_connection :: "controller \<Rightarrow> controller" where
  "test_connection c =
     (if is_connected c then
        (let c1 = snd (send_command ''TEST'' c)
         in c1\<lparr>dialogs := dialogs c1 @ [ShowInfo ''Test'' ''Test command sent'']\<rparr>)
      else c\<lparr>dialogs := dialogs c @ [ShowWarning ''Test'' ''No active connection to test'']\<rparr>)"

text \<open>The decimal digits of a natural number and \<open>str\<close> of an integer.\<close>

fun digits :: "nat \<Rightarrow> string" where
  "digits n = (if n < 10 then [char_of (48 + n)] else digits (n div 10) @ [char_of (48 + n mod 10)])"

definition str_int :: "int \<Rightarrow> string" where
  "str_int i = (if i < 0 then CHR ''-'' # digits (nat (- i)) else digits (nat i))"

text \<open>
  \<open>UTMControlPanel.set_motor_speed\<close> of gui_components.py, on the integer read from
  the speed entry. The range is checked before anything is sent.
\<close>

definition set_motor_speed :: "int \<Rightarrow> controller \<Rightarrow> controller" where
  "set_motor_speed speed c =
     (if 1 \<le> speed \<and> speed \<le> 200 then
        (send_custom_command (CHR ''S'' # str_int speed) c)\<lparr>current_speed := speed\<rparr>
      else c\<lparr>dialogs := dialogs c @
             [ShowWarning ''Invalid Speed'' ''Speed must be between 1 and 200 RPM'']\<rparr>)"

text \<open>\<open>UTMControlPanel.get_motor_speed\<close>\<close>

definition get_motor_speed :: "controller \<Rightarrow> controller" where
  "get_motor_speed c = send_custom_command ''G'' c"

text \<open>The command intents of the operator.\<close>

datatype command = Open | Close | Stop | Zero | Turboset bool | SetSpeed int | Custom string

fun issue :: "command \<Rightarrow> controller \<Rightarrow> controller" where
  "issue Open c = open_command c"
| "issue Close c = close_command c"
| "issue Stop c = stop_command c"
| "issue Zero c = zero_command c"
| "issue (Turboset confirm) c = turboset_command confirm c"
| "issue (SetSpeed speed) c = set_motor_speed speed c"
| "issue (Custom text) c = send_custom_command text c"


text \<open>
  The commands that go through \<open>send_custom_command\<close>, which asks the handler for the
  connection; the others test the controller's \<open>is_connected\<close> flag.
\<close>

fun asks_handler :: "command \<Rightarrow> bool" where
  "asks_handler (SetSpeed speed) = True"
| "asks_handler (Custom text) = True"
| "asks_handler cmd = False"

text \<open>Whether the parameter of a command is in its range: the speed is, from 1 to 200.\<close>

fun valid_parameter :: "command \<Rightarrow> bool" where
  "valid_parameter (SetSpeed speed) = (1 \<le> speed \<and> speed \<le> 200)"
| "valid_parameter cmd = True"

subsection \<open>Incoming frames\<close>

text \<open>\<open>data.startswith(p)\<close>\<close>

definition startswith :: "string \<Rightarrow> string \<Rightarrow> bool" where
  "startswith data p = (take (length p) data = p)"

text \<open>
  \<open>data.split(':')[1]\<close>: the text between the first colon and the next one, or the
  end; IndexError when there is no colon.
\<close>

definition field1 :: "string \<Rightarrow> py_error + string" where
  "field1 data =
     (if CHR '':'' \<in> set data then
        Inr (takeWhile (\<lambda>ch. ch \<noteq> CHR '':'') (tl (dropWhile (\<lambda>ch. ch \<noteq> CHR '':'') data)))
      else Inl IndexError)"

text \<open>
  \<open>UTMController.handle_pcb_button\<close>: the button of the control panel is highlighted
  and the command of \<open>button_map\<close> runs; any other code does nothing.
\<close>

definition handle_pcb_button :: "string \<Rightarrow> controller \<Rightarrow> controller" where
  "handle_pcb_button button_code c =
     (if button_code = ''1'' then open_command (c\<lparr>highlighted := highlighted c @ [button_code]\<rparr>)
      else if button_code = ''2'' then
        close_command (c\<lparr>highlighted := highlighted c @ [button_code]\<rparr>)
      else if button_code = ''3'' then
        stop_command (c\<lparr>highlighted := highlighted c @ [button_code]\<rparr>)
      else if button_code = ''4'' then
        zero_command (c\<lparr>highlighted := highlighted c @ [button_code]\<rparr>)
      else c)"

text \<open>\<open>UTMController.handle_speed_response\<close>\<close>

definition handle_speed_response :: "int \<Rightarrow> controller \<Rightarrow> controller" where
  "handle_speed_response speed_value c = c\<lparr>current_speed := speed_value\<rparr>"

text \<open>
  The \<open>if\<close>/\<open>elif\<close> chain of \<open>UTMController.handle_serial_data\<close>. The builtins
  \<open>float\<close> and \<open>int\<close> are arguments: \<open>None\<close> is their ValueError.
\<close>

definition dispatch ::
  "(string \<Rightarrow> pyfloat option) \<Rightarrow> (string \<Rightarrow> int option) \<Rightarrow> string \<Rightarrow> controller
     \<Rightarrow> py_error + controller" where
  "dispatch py_float py_int data c =
     (if startswith data ''LOAD:'' then
        (case field1 data of
           Inl e \<Rightarrow> Inl e
         | Inr f \<Rightarrow> (case py_float f of
                       None \<Rightarrow> Inl ValueError
                     | Some v \<Rightarrow> Inr (c\<lparr>load_value := v\<rparr>)))
      else if startswith data ''POS:'' then
        (case field1 data of
           Inl e \<Rightarrow> Inl e
         | Inr f \<Rightarrow> (case py_float f of
                       None \<Rightarrow> Inl ValueError
                     | Some v \<Rightarrow> Inr (c\<lparr>position_value := v\<rparr>)))
      else if startswith data ''STATE:'' then
        (case field1 data of
           Inl e \<Rightarrow> Inl e
         | Inr f \<Rightarrow> Inr (c\<lparr>machine_state := f\<rparr>))
      else if startswith data ''BTN:'' then
        (case field1 data of
           Inl e \<Rightarrow> Inl e
         | Inr f \<Rightarrow> Inr (handle_pcb_button f c))
      else if startswith data ''SPEED:'' then
        (case field1 data of
           Inl e \<Rightarrow> Inl e
         | Inr f \<Rightarrow> (case py_int f of
                       None \<Rightarrow> Inl ValueError
                     | Some v \<Rightarrow> Inr (handle_speed_response v c)))
      else Inr c)"

text \<open>
  The end of \<open>handle_serial_data\<close>: the latest load and position go to the plotter
  when it is plotting, with the clock reading \<open>now\<close>.
\<close>

definition record_latest :: "pyfloat \<Rightarrow> controller \<Rightarrow> controller" where
  "record_latest now c =
     (if is_plotting (graph_plotter c) then
        (case add_data_point now (load_value c) (position_value c) (graph_plotter c) of
           Inl e \<Rightarrow> c
         | Inr p \<Rightarrow> c\<lparr>graph_plotter := p\<rparr>)
      else c)"

text \<open>
  \<open>UTMController.handle_serial_data\<close>. An exception of the chain is caught and logged,
  and the method returns; every such exception is raised before the branch has
  changed anything.
\<close>

definition handle_serial_data ::
  "(string \<Rightarrow> pyfloat option) \<Rightarrow> (string \<Rightarrow> int option) \<Rightarrow> pyfloat \<Rightarrow> string \<Rightarrow> controller
     \<Rightarrow> controller" where
  "handle_serial_data py_float py_int now data c =
     (case dispatch py_float py_int data c of
        Inl e \<Rightarrow> c
      | Inr c1 \<Rightarrow> record_latest now c1)"

text \<open>
  A reader of plain decimal literals (an optional sign, digits, an optional fraction),
  the format of the telemetry lines; it stands for \<open>float\<close> where a concrete reader
  is needed.
\<close>

definition digit_value :: "char \<Rightarrow> nat option" where
  "digit_value ch = (let n = (of_char ch :: nat) in if 48 \<le> n \<and> n \<le> 57 then Some (n - 48) else None)"

fun read_digits :: "nat \<Rightarrow> string \<Rightarrow> nat option" where
  "read_digits acc [] = Some acc"
| "read_digits acc (ch # cs) =
     (case digit_value ch of None \<Rightarrow> None | Some d \<Rightarrow> read_digits (10 * acc + d) cs)"

definition read_unsigned :: "string \<Rightarrow> real option" where
  "read_unsigned s =
     (let ip = takeWhile (\<lambda>ch. ch \<noteq> CHR ''.'') s;
          fp = drop 1 (dropWhile (\<lambda>ch. ch \<noteq> CHR ''.'') s)
      in if ip = [] \<and> fp = [] then None
         else case read_digits 0 ip of
                None \<Rightarrow> None
              | Some i \<Rightarrow> (case read_digits 0 fp of
                            None \<Rightarrow> None
                          | Some f \<Rightarrow> Some (real i + real f / 10 ^ length fp)))"

definition read_decimal :: "string \<Rightarrow> pyfloat option" where
  "read_decimal s =
     (case s of
        [] \<Rightarrow> None
      | ch # cs \<Rightarrow>
          if ch = CHR ''-'' then map_option (\<lambda>r. Finite (- r)) (read_unsigned cs)
          else if ch = CHR ''+'' then map_option Finite (read_unsigned cs)
          else map_option Finite (read_unsigned s))"

definition read_int :: "string \<Rightarrow> int option" where
  "read_int s =
     (case s of
        [] \<Rightarrow> None
      | ch # cs \<Rightarrow>
          if ch = CHR ''-'' then (if cs = [] then None else map_option (\<lambda>n. - int n) (read_digits 0 cs))
          else map_option int (read_digits 0 s))"

text \<open>A controller right after its construction, with the plotter given.\<close>

definition initial_controller :: "plotter \<Rightarrow> controller" where
  "initial_controller p =
     \<lparr>machine_state = ''Disconnected'', load_value = Finite 0, position_value = Finite 0,
      is_connected = False, connection = None, handler_connected = False, port = None,
      baudrate = 9600, running = False, receive_buffer = [], graph_plotter = p, wire = [], dialogs = [],
      io_trace = [], reconnect_threads = 0, highlighted = [], current_speed = 10\<rparr>"

text \<open>The same controller connected through an open port.\<close>

definition connected_controller :: "plotter \<Rightarrow> controller" where
  "connected_controller p =
     (initial_controller p)\<lparr>machine_state := ''Connected'', is_connected := True,
        connection := Some (Connection True False False), handler_connected := True,
        port := Some ''COM3'', running := True\<rparr>"

section \<open>Safety monitor (utils.py)\<close>

text \<open>
  A violation is the message \<open>check_safety_limits\<close> formats, kept as its kind and the
  two numbers it prints.
\<close>

datatype violation =
    LoadExceeded pyfloat pyfloat
  | PositionExceeded pyfloat pyfloat
  | PositionBelow pyfloat pyfloat

record 'cb safety_monitor =
  max_load :: pyfloat
  max_position :: pyfloat
  min_position :: pyfloat
  safety_callbacks :: "'cb list"

text \<open>\<open>SafetyMonitor.__init__\<close> with its default limits, callbacks added.\<close>

definition default_monitor :: "'cb list \<Rightarrow> 'cb safety_monitor" where
  "default_monitor cbs =
     \<lparr>max_load = Finite 10000, max_position = Finite 100, min_position = Finite (- 5),
      safety_callbacks = cbs\<rparr>"

text \<open>The list \<open>violations\<close> that \<open>check_safety_limits\<close> builds.\<close>

definition violations_of :: "pyfloat \<Rightarrow> pyfloat \<Rightarrow> 'cb safety_monitor \<Rightarrow> violation list" where
  "violations_of load position m =
     (if fl_less (max_load m) (fl_abs load) then [LoadExceeded load (max_load m)] else []) @
     (if fl_less (max_position m) position then [PositionExceeded position (max_position m)]
      else []) @
     (if fl_less position (min_position m) then [PositionBelow position (min_position m)]
      else [])"

text \<open>
  \<open>SafetyMonitor.check_safety_limits\<close>: returns whether the values are within the
  limits, and the calls made: each callback with the list of violations. A callback
  that raises is logged and the loop goes on.
\<close>

definition check_safety_limits ::
  "pyfloat \<Rightarrow> pyfloat \<Rightarrow> 'cb safety_monitor \<Rightarrow> bool \<times> ('cb \<times> violation list) list" where
  "check_safety_limits load position m =
     (let violations = violations_of load position m
      in (length violations = 0,
          if violations \<noteq> [] then map (\<lambda>callback. (callback, violations)) (safety_callbacks m)
          else []))"

section \<open>What runs after a connection failure\<close>

text \<open>
  \<open>SerialHandler.read_data\<close> as \<open>serial_monitor_loop\<close> calls it, guarded by
  \<open>is_connected()\<close>; the line read is returned to a caller that drops it. \<open>raises\<close>
  says whether the port raises.
\<close>

definition monitor_poll :: "bool \<Rightarrow> controller \<Rightarrow> controller" where
  "monitor_poll raises c =
     (if handler_is_connected c then
        (if raises then handle_connection_error c else c)
      else c)"

text \<open>What reading the port gives to one iteration of \<open>_read_loop\<close>.\<close>

datatype read_outcome = SerialException | OtherException | NothingWaiting | LineRead string

text \<open>The callback run on each frame delivered, in order.\<close>

fun deliver ::
  "(string \<Rightarrow> pyfloat option) \<Rightarrow> (string \<Rightarrow> int option) \<Rightarrow> pyfloat \<Rightarrow> delivery list \<Rightarrow> controller
     \<Rightarrow> controller" where
  "deliver py_float py_int now [] c = c"
| "deliver py_float py_int now (d # ds) c =
     deliver py_float py_int now ds (handle_serial_data py_float py_int now (payload d) c)"

text \<open>
  One iteration of \<open>SerialHandler._read_loop\<close>, the loop condition included: the line
  read is decoded and stripped and, when not empty, goes through the framer to the
  controller.
\<close>

definition read_loop_step ::
  "(string \<Rightarrow> pyfloat option) \<Rightarrow> (string \<Rightarrow> int option) \<Rightarrow> pyfloat \<Rightarrow> read_outcome \<Rightarrow> controller
     \<Rightarrow> controller" where
  "read_loop_step py_float py_int now r c =
     (if running c \<and> handler_connected c then
        (case connection c of
           None \<Rightarrow> handle_connection_error c
         | Some k \<Rightarrow>
             if is_open k then
               (case r of
                  SerialException \<Rightarrow> handle_connection_error c
                | OtherException \<Rightarrow> c
                | NothingWaiting \<Rightarrow> c
                | LineRead raw \<Rightarrow>
                    (let line = strip raw
                     in if line \<noteq> [] then
                          (let (ds, rest) = process_received_data True (receive_buffer c) line
                           in deliver py_float py_int now ds (c\<lparr>receive_buffer := rest\<rparr>))
                        else c))
             else handle_connection_error c)
      else c)"

text \<open>\<open>UTMController.disconnect_serial\<close>\<close>

definition disconnect_serial :: "controller \<Rightarrow> controller" where
  "disconnect_serial c =
     (let c1 = disconnect c
      in c1\<lparr>dialogs := dialogs c1 @ [ShowInfo ''Connection'' ''Disconnected from serial port'']\<rparr>)"

text \<open>
  Everything that runs on the connection besides an explicit connect: the operator's
  commands, the connection test, the speed query, a disconnect, and the iterations of
  the two reading loops.
\<close>

datatype event =
    Issue command
  | TestConnection
  | GetSpeed
  | Disconnect
  | MonitorPoll bool
  | ReadLoop read_outcome

fun step ::
  "(string \<Rightarrow> pyfloat option) \<Rightarrow> (string \<Rightarrow> int option) \<Rightarrow> pyfloat \<Rightarrow> event \<Rightarrow> controller
     \<Rightarrow> controller" where
  "step py_float py_int now (Issue cmd) c = issue cmd c"
| "step py_float py_int now TestConnection c = test_connection c"
| "step py_float py_int now GetSpeed c = get_motor_speed c"
| "step py_float py_int now Disconnect c = disconnect_serial c"
| "step py_float py_int now (MonitorPoll raises) c = monitor_poll raises c"
| "step py_float py_int now (ReadLoop r) c = read_loop_step py_float py_int now r c"

fun run ::
  "(string \<Rightarrow> pyfloat option) \<Rightarrow> (string \<Rightarrow> int option) \<Rightarrow> pyfloat \<Rightarrow> event list \<Rightarrow> controller
     \<Rightarrow> controller" where
  "run py_float py_int now [] c = c"
| "run py_float py_int now (e # es) c =
     run py_float py_int now es (step py_float py_int now e c)"

text \<open>An attempt to open the port fails: it raises, or the port comes back closed.\<close>

fun open_fails :: "open_result \<Rightarrow> bool" where
  "open_fails OpenRaises = True"
| "open_fails (Opened k) = (\<not> is_open k)"

text \<open>The number of attempts to open the port in a trace.\<close>

fun count_opens :: "io_event list \<Rightarrow> nat" where
  "count_opens [] = 0"
| "count_opens (OpenPort p b # es) = Suc (count_opens es)"
| "count_opens (Sleep d # es) = count_opens es"

text \<open>Every attempt to open the port comes right after a sleep of 2 seconds.\<close>

fun delayed :: "io_event list \<Rightarrow> bool" where
  "delayed [] = True"
| "delayed (Sleep d # OpenPort p b # es) = (d = 2 \<and> delayed es)"
| "delayed (Sleep d # es) = delayed es"
| "delayed (OpenPort p b # es) = False"

text \<open>A port that cannot be opened: every attempt raises.\<close>

definition never_opens :: "nat \<Rightarrow> open_result" where
  "never_opens n = OpenRaises"

section \<open>Material analysis (graph_plotter.py)\<close>

fun is_nan :: "pyfloat \<Rightarrow> bool" where
  "is_nan NaN = True"
| "is_nan x = False"

fun is_inf :: "pyfloat \<Rightarrow> bool" where
  "is_inf PosInf = True"
| "is_inf NegInf = True"
| "is_inf x = False"

text \<open>
  The samples that the mask \<open>valid_indices\<close> keeps, as pairs of stress and strain, in
  order: those where neither value is NaN or infinite.
\<close>

fun valid_pairs :: "pyfloat list \<Rightarrow> pyfloat list \<Rightarrow> (pyfloat \<times> pyfloat) list" where
  "valid_pairs (s # ss) (e # es) =
     (if \<not> (is_nan s \<or> is_nan e \<or> is_inf s \<or> is_inf e) then (s, e) # valid_pairs ss es
      else valid_pairs ss es)"
| "valid_pairs ss es = []"

text \<open>The float literal \<open>0.2\<close>: the double nearest to a fifth, \<open>(2\<^sup>5\<^sup>4 + 1) / (5 * 2\<^sup>5\<^sup>4)\<close>.\<close>

definition double_0_2 :: pyfloat where
  "double_0_2 = Finite (3602879701896397 / 2 ^ 54)"

text \<open>
  \<open>int(x)\<close> of a float: the fraction is cut off; an infinity and NaN raise.
\<close>

fun int_of_float :: "pyfloat \<Rightarrow> py_error + int" where
  "int_of_float (Finite r) = Inr (if 0 \<le> r then \<lfloor>r\<rfloor> else \<lceil>r\<rceil>)"
| "int_of_float NaN = Inl ValueError"
| "int_of_float x = Inl OverflowError"

text \<open>
  \<open>linear_end = int(len(stress) * 0.2)\<close>, raised to \<open>min(len(stress), 5)\<close> when below 5.
  The length becomes a float for the product.
\<close>

definition linear_end :: "nat \<Rightarrow> py_error + nat" where
  "linear_end n =
     (case int_of_float (fl_mul (fl_round (real n)) double_0_2) of
        Inl e \<Rightarrow> Inl e
      | Inr le \<Rightarrow> Inr (if le < 5 then min n 5 else nat le))"

text \<open>
  The Young's modulus of \<open>calculate_material_properties\<close>, from the filtered stress
  and strain: the slope of the fit over the linear region, times 1000. The fit,
  \<open>scipy.stats.linregress\<close>, is a library function and an argument here: it returns
  its slope or raises.
\<close>

definition fit_youngs_modulus ::
  "(pyfloat list \<Rightarrow> pyfloat list \<Rightarrow> py_error + pyfloat) \<Rightarrow> pyfloat list \<Rightarrow> pyfloat list
     \<Rightarrow> py_error + pyfloat" where
  "fit_youngs_modulus linregress stress strain =
     (case linear_end (length stress) of
        Inl e \<Rightarrow> Inl e
      | Inr le \<Rightarrow>
          (let linear_stress = take le stress;
               linear_strain = take le strain
           in if length linear_stress \<ge> 2 then
                (case linregress linear_strain linear_stress of
                   Inl e \<Rightarrow> Inl e
                 | Inr slope \<Rightarrow> Inr (fl_mul slope (Finite 1000)))
              else Inr (Finite 0)))"

text \<open>
  Division of numpy floats: a zero divisor gives an infinity or NaN and no exception.
\<close>

definition np_divide :: "pyfloat \<Rightarrow> pyfloat \<Rightarrow> pyfloat" where
  "np_divide a b =
     (case truediv a b of
        Inr q \<Rightarrow> q
      | Inl e \<Rightarrow> if gt_zero a then PosInf else if gt_zero (fl_neg a) then NegInf else NaN)"

text \<open>
  The yield strength by the offset line: the stress at the first sample whose stress
  minus \<open>youngs_modulus * (strain + 0.2) / 1000\<close> is above 0, or 0 when there is none.
\<close>

definition offset_yield :: "pyfloat \<Rightarrow> (pyfloat \<times> pyfloat) list \<Rightarrow> pyfloat" where
  "offset_yield modulus pts =
     (case filter (\<lambda>(s, e).
             gt_zero (fl_sub s (np_divide (fl_mul modulus (fl_add e double_0_2)) (Finite 1000))))
           pts of
        [] \<Rightarrow> Finite 0
      | (s, e) # rest \<Rightarrow> s)"

text \<open>\<open>np.max\<close>, which lets a NaN through, and the index \<open>[-1]\<close>; both raise on an empty array.\<close>

definition np_max :: "pyfloat list \<Rightarrow> py_error + pyfloat" where
  "np_max xs =
     (case xs of
        [] \<Rightarrow> Inl ValueError
      | x # rest \<Rightarrow>
          Inr (fold (\<lambda>v m. if is_nan m \<or> is_nan v then NaN else if fl_less m v then v else m)
                 rest x))"

definition last_item :: "pyfloat list \<Rightarrow> py_error + pyfloat" where
  "last_item xs = (if xs = [] then Inl IndexError else Inr (last xs))"

text \<open>
  How \<open>calculate_material_properties\<close> ends: with the results written, with a warning
  dialog, or in its exception handler.
\<close>

datatype analysis_outcome = Calculated | Warned string string | Raised py_error

text \<open>
  \<open>MaterialTestPlotter.calculate_material_properties\<close>. The five results are assigned
  one after the other, as in the source; an exception between two assignments would
  leave the earlier ones written. Arrays of different lengths cannot be combined in
  the mask and raise.
\<close>

definition calculate_material_properties ::
  "(pyfloat list \<Rightarrow> pyfloat list \<Rightarrow> py_error + pyfloat) \<Rightarrow> plotter
     \<Rightarrow> analysis_outcome \<times> plotter" where
  "calculate_material_properties linregress p =
     (if length (stress_data p) < 10 \<or> length (strain_data p) < 10 then
        (Warned ''Insufficient Data'' ''Not enough data points for analysis'', p)
      else if length (stress_data p) \<noteq> length (strain_data p) then (Raised ValueError, p)
      else
        (let pts = valid_pairs (stress_data p) (strain_data p);
             stress = map fst pts;
             strain = map snd pts
         in if length stress < 5 then
              (Warned ''Invalid Data'' ''Not enough valid data points for analysis'', p)
            else
              (case fit_youngs_modulus linregress stress strain of
                 Inl e \<Rightarrow> (Raised e, p)
               | Inr modulus \<Rightarrow>
                   (let p1 = p\<lparr>youngs_modulus := modulus\<rparr>;
                        p2 = p1\<lparr>yield_strength := offset_yield modulus pts\<rparr>
                    in case np_max stress of
                         Inl e \<Rightarrow> (Raised e, p2)
                       | Inr u \<Rightarrow>
                           (let p3 = p2\<lparr>ultimate_strength := u\<rparr>
                            in case last_item stress of
                                 Inl e \<Rightarrow> (Raised e, p3)
                               | Inr f \<Rightarrow>
                                   (let p4 = p3\<lparr>fracture_strength := f\<rparr>
                                    in case last_item strain of
                                         Inl e \<Rightarrow> (Raised e, p4)
                                       | Inr el \<Rightarrow>
                                           (Calculated, p4\<lparr>elongation_at_break := el\<rparr>)))))))"

text \<open>The two warnings that report too few samples.\<close>

definition insufficient_data :: "analysis_outcome \<Rightarrow> bool" where
  "insufficient_data r =
     (r = Warned ''Insufficient Data'' ''Not enough data points for analysis'' \<or>
      r = Warned ''Invalid Data'' ''Not enough valid data points for analysis'')"

text \<open>The number of samples the specification gives the linear region.\<close>

definition spec_linear_count :: "nat \<Rightarrow> nat" where
  "spec_linear_count n = max 5 (nat (round (0.2 * real n)))"

subsection \<open>A least-squares fit to run the analysis on\<close>

definition mean :: "real list \<Rightarrow> real" where
  "mean xs = sum_list xs / real (length xs)"

text \<open>
  The least-squares slope of \<open>ys\<close> against \<open>xs\<close> in exact arithmetic: the covariance
  over the variance of \<open>xs\<close>; no slope exists when all \<open>xs\<close> are identical.
\<close>

definition least_squares_slope :: "real list \<Rightarrow> real list \<Rightarrow> py_error + real" where
  "least_squares_slope xs ys =
     (let xm = mean xs; ym = mean ys;
          ssxm = (\<Sum>x\<leftarrow>xs. (x - xm) * (x - xm)) / real (length xs);
          ssxym = (\<Sum>(x, y)\<leftarrow>zip xs ys. (x - xm) * (y - ym)) / real (length xs)
      in if list_all (\<lambda>x. x = hd xs) xs then Inl ValueError else Inr (ssxym / ssxm))"

text \<open>
  The sum of the squared errors of the line \<open>y = a * x + b\<close> on the points given by
  \<open>xs\<close> and \<open>ys\<close>: what a least-squares fit makes smallest.
\<close>

definition sse :: "real \<Rightarrow> real \<Rightarrow> real list \<Rightarrow> real list \<Rightarrow> real" where
  "sse a b xs ys = (\<Sum>(x, y)\<leftarrow>zip xs ys. (y - (a * x + b)) * (y - (a * x + b)))"

fun real_of :: "pyfloat \<Rightarrow> real" where
  "real_of (Finite r) = r"
| "real_of x = 0"

text \<open>
  A fit that stands for \<open>linregress\<close> where the analysis is run on concrete data: the
  exact least-squares slope of the finite values, rounded to a double.
\<close>

definition rounded_least_squares :: "pyfloat list \<Rightarrow> pyfloat list \<Rightarrow> py_error + pyfloat" where
  "rounded_least_squares xs ys =
     (case least_squares_slope (map real_of xs) (map real_of ys) of
        Inl e \<Rightarrow> Inl e
      | Inr slope \<Rightarrow> Inr (fl_round slope))"

text \<open>A series of \<open>n\<close> samples on the line \<open>stress = 2 * strain\<close>, strain 0, 1, 2, ...\<close>

definition line_plotter :: "nat \<Rightarrow> plotter" where
  "line_plotter n =
     (filled_plotter n)\<lparr>stress_data := map (\<lambda>i. Finite (2 * real i)) [0..<n],
                         strain_data := map (\<lambda>i. Finite (real i)) [0..<n]\<rparr>"

text \<open>
  A series of 28 valid samples: stress equal to strain for the first five, then a
  jump.
\<close>

definition kinked_stress :: "pyfloat list" where
  "kinked_stress = map Finite ([0, 1, 2, 3, 4, 10] @ replicate 22 10)"

definition kinked_strain :: "pyfloat list" where
  "kinked_strain = map Finite ([0, 1, 2, 3, 4, 5] @ replicate 22 6)"

text \<open>A plotter that holds this series.\<close>

definition kinked_plotter :: plotter where
  "kinked_plotter = (filled_plotter 28)\<lparr>stress_data := kinked_stress, strain_data := kinked_strain\<rparr>"

text \<open>A plotter with 10 samples whose stress is NaN throughout.\<close>

definition nan_plotter :: plotter where
  "nan_plotter = (filled_plotter 10)\<lparr>stress_data := replicate 10 NaN\<rparr>"

section \<open>Properties of the measurement pipeline\<close>

lemma gt_zero_truediv: "gt_zero b \<Longrightarrow> \<exists>q. truediv a b = Inr q"
  by (cases a; cases b) auto

lemma calc_stress_total: "\<exists>s. calc_stress load area = Inr s"
  using gt_zero_truediv [of area load] by (auto simp: calc_stress_def)

lemma calc_strain_total: "\<exists>s. calc_strain position gauge = Inr s"
  using gt_zero_truediv [of gauge position] by (auto simp: calc_strain_def)

lemma gt_zero_not_le_zero: "gt_zero a \<Longrightarrow> \<not> le_zero a"
  by (cases a) auto

lemma calc_stress_cases:
  "calc_stress load area = Inr s \<Longrightarrow>
     (gt_zero area \<longrightarrow> truediv load area = Inr s) \<and> (\<not> gt_zero area \<longrightarrow> s = Finite 0)"
  by (auto simp: calc_stress_def split: if_splits)

lemma calc_strain_cases:
  "calc_strain position gauge = Inr s \<Longrightarrow>
     (gt_zero gauge \<longrightarrow> (\<exists>q. truediv position gauge = Inr q \<and> s = fl_mul q (Finite 100))) \<and>
     (\<not> gt_zero gauge \<longrightarrow> s = Finite 0)"
  by (auto simp: calc_strain_def split: if_splits sum.splits)

text \<open>
  The loop iteration never leaves more than the capacity in the series, and what it
  keeps are the newest entries in their order of insertion.
\<close>

lemma length_last_n: "0 < n \<Longrightarrow> length (last_n n xs) \<le> n"
  by (simp add: last_n_def)

lemma last_n_suffix: "length xs = n + k \<Longrightarrow> 0 < n \<Longrightarrow> last_n n xs = drop k xs"
  by (simp add: last_n_def)

lemma plot_update_step_bounded:
  assumes "0 < cap" and "plot_update_step cap t l x p = Inr p'"
  shows "length (time_data p') \<le> cap"
    and "time_data p' = (if length (time_data p) < cap then time_data p @ [t]
                         else last_n cap (time_data p @ [t]))"
  using assms
  by (auto simp: plot_update_step_def Let_def length_last_n last_n_def
      split: sum.splits if_splits)

text \<open>
  C8, as the code has it. Every sample recorded by \<open>add_data_point\<close> is stored
  without any error: the stress appended is the float quotient \<open>load / specimen_area\<close>
  when the area is positive and 0 when it is not, at most 0 included; the strain
  appended is \<open>(position / gauge_length) * 100\<close>, the float quotient first and then the
  float product, when the gauge length is positive and 0 when it is not; the division
  is never reached with a zero divisor. When the plotter is not recording, the sample
  is dropped: the call returns the plotter unchanged, without error.
\<close>

theorem add_data_point_derived:
  "(is_plotting p \<longrightarrow>
      (\<exists>stress strain.
         add_data_point t load position p =
           Inr (p\<lparr>time_data := time_data p @ [t],
                   load_data := load_data p @ [load],
                   position_data := position_data p @ [position],
                   stress_data := stress_data p @ [stress],
                   strain_data := strain_data p @ [strain],
                   displacement_data := displacement_data p @ [position]\<rparr>) \<and>
         (gt_zero (specimen_area p) \<longrightarrow> truediv load (specimen_area p) = Inr stress) \<and>
         (\<not> gt_zero (specimen_area p) \<longrightarrow> stress = Finite 0) \<and>
         (le_zero (specimen_area p) \<longrightarrow> stress = Finite 0) \<and>
         (gt_zero (gauge_length p) \<longrightarrow>
            (\<exists>q. truediv position (gauge_length p) = Inr q \<and>
                 strain = fl_mul q (Finite 100))) \<and>
         (\<not> gt_zero (gauge_length p) \<longrightarrow> strain = Finite 0) \<and>
         (le_zero (gauge_length p) \<longrightarrow> strain = Finite 0))) \<and>
   (\<not> is_plotting p \<longrightarrow> add_data_point t load position p = Inr p)"
proof -
  obtain s where s: "calc_stress load (specimen_area p) = Inr s"
    using calc_stress_total by blast
  obtain e where e: "calc_strain position (gauge_length p) = Inr e"
    using calc_strain_total by blast
  have "is_plotting p \<Longrightarrow>
      add_data_point t load position p =
        Inr (p\<lparr>time_data := time_data p @ [t],
                load_data := load_data p @ [load],
                position_data := position_data p @ [position],
                stress_data := stress_data p @ [s],
                strain_data := strain_data p @ [e],
                displacement_data := displacement_data p @ [position]\<rparr>)"
    using s e by (simp add: add_data_point_def)
  moreover have "\<not> is_plotting p \<Longrightarrow> add_data_point t load position p = Inr p"
    by (simp add: add_data_point_def)
  ultimately show ?thesis
    using calc_stress_cases [OF s] calc_strain_cases [OF e]
      gt_zero_not_le_zero [of "specimen_area p"] gt_zero_not_le_zero [of "gauge_length p"]
    by blast
qed

lemma calc_50_5:
  "calc_stress (Finite 50) (Finite 1) = Inr (Finite 50)"
  "calc_strain (Finite 5) (Finite 25) = Inr (Finite 20)"
  "calc_stress (Finite 50) (Finite 0) = Inr (Finite 0)"
  by code_simp+

theorem add_data_point_derived_witness:
  "is_plotting (filled_plotter 0) \<and> gt_zero (specimen_area (filled_plotter 0)) \<and>
   gt_zero (gauge_length (filled_plotter 0)) \<and>
   stress_data (projr (add_data_point (Finite 1) (Finite 50) (Finite 5) (filled_plotter 0)))
     = [Finite 50] \<and>
   strain_data (projr (add_data_point (Finite 1) (Finite 50) (Finite 5) (filled_plotter 0)))
     = [Finite 20] \<and>
   le_zero (specimen_area ((filled_plotter 0)\<lparr>specimen_area := Finite 0\<rparr>)) \<and>
   stress_data (projr (add_data_point (Finite 1) (Finite 50) (Finite 5)
     ((filled_plotter 0)\<lparr>specimen_area := Finite 0\<rparr>))) = [Finite 0] \<and>
   \<not> is_plotting ((filled_plotter 3)\<lparr>is_plotting := False\<rparr>) \<and>
   add_data_point (Finite 1) (Finite 50) (Finite 5) ((filled_plotter 3)\<lparr>is_plotting := False\<rparr>)
     = Inr ((filled_plotter 3)\<lparr>is_plotting := False\<rparr>)"
  using add_data_point_derived [of "filled_plotter 0" "Finite 1" "Finite 50" "Finite 5"]
    add_data_point_derived [of "(filled_plotter 0)\<lparr>specimen_area := Finite 0\<rparr>"
      "Finite 1" "Finite 50" "Finite 5"]
    add_data_point_derived [of "(filled_plotter 3)\<lparr>is_plotting := False\<rparr>"
      "Finite 1" "Finite 50" "Finite 5"]
    calc_50_5
  by (simp add: filled_plotter_def add_data_point_def)

lemma hundred_thirds:
  "truediv (fl_mul (Finite 100) (Finite 1)) (Finite 3)
     = Inr (Finite (4691249611844267 / 2 ^ 47))"
  by code_simp

text \<open>
  C8 as stated fails in the strain: with the gauge length 3 and the position 1, the
  strain recorded is \<open>(1 / 3) * 100\<close>, the double 33.33333333333333, and not
  \<open>100 * 1 / 3\<close>, which is the double 33.333333333333336.
\<close>

theorem strain_divides_before_scaling:
  "strain_data (projr (add_data_point (Finite 0) (Finite 0) (Finite 1)
      ((filled_plotter 0)\<lparr>gauge_length := Finite 3\<rparr>)))
     = [Finite (2345624805922133 / 2 ^ 46)] \<and>
   truediv (fl_mul (Finite 100) (Finite 1)) (Finite 3)
     = Inr (Finite (4691249611844267 / 2 ^ 47)) \<and>
   Finite (2345624805922133 / 2 ^ 46) \<noteq> Finite (4691249611844267 / 2 ^ 47)"
proof -
  have "calc_strain (Finite 1) (Finite 3) = Inr (Finite (2345624805922133 / 2 ^ 46))"
    by code_simp
  moreover have "calc_stress (Finite 0) (Finite 1) = Inr (Finite 0)"
    by (simp add: calc_stress_def fl_round_def)
  ultimately have "strain_data (projr (add_data_point (Finite 0) (Finite 0) (Finite 1)
      ((filled_plotter 0)\<lparr>gauge_length := Finite 3\<rparr>)))
     = [Finite (2345624805922133 / 2 ^ 46)]"
    by (simp add: add_data_point_def filled_plotter_def)
  moreover have "truediv (fl_mul (Finite 100) (Finite 1)) (Finite 3)
     = Inr (Finite (4691249611844267 / 2 ^ 47))"
    by (simp only: hundred_thirds)
  moreover have "Finite (2345624805922133 / 2 ^ 46) \<noteq> Finite (4691249611844267 / 2 ^ 47)"
    by simp
  ultimately show ?thesis by blast
qed

lemma add_data_point_filled:
  "add_data_point (Finite 0) (Finite 0) (Finite 0) (filled_plotter n)
     = Inr (filled_plotter (Suc n))"
  by (simp add: add_data_point_def filled_plotter_def calc_stress_def calc_strain_def
      fl_round_def replicate_append_same)

lemma length_filled_plotter:
  "length (time_data (filled_plotter n)) = n" "length (stress_data (filled_plotter n)) = n"
  by (simp_all add: filled_plotter_def)

text \<open>
  C1. The series never holds more than \<open>MAX_PLOT_POINTS\<close> samples after an insert.
  \<open>add_data_point\<close> appends without trimming: on a series that holds exactly
  \<open>MAX_PLOT_POINTS\<close> samples it returns one with \<open>MAX_PLOT_POINTS + 1\<close>, the oldest
  sample still there.
\<close>

theorem add_data_point_exceeds_capacity:
  "add_data_point (Finite 0) (Finite 0) (Finite 0) (filled_plotter MAX_PLOT_POINTS)
     = Inr (filled_plotter (Suc MAX_PLOT_POINTS)) \<and>
   length (time_data (filled_plotter (Suc MAX_PLOT_POINTS))) = 1001 \<and>
   length (stress_data (filled_plotter (Suc MAX_PLOT_POINTS))) = 1001 \<and>
   MAX_PLOT_POINTS < length (time_data (filled_plotter (Suc MAX_PLOT_POINTS)))"
  by (simp add: add_data_point_filled length_filled_plotter MAX_PLOT_POINTS_def)

section \<open>Properties of the line framer\<close>

declare split_loop.simps [simp del]

lemma split_at_boundary:
  assumes "NL \<in> set buf"
  shows "takeWhile (\<lambda>c. c \<noteq> NL) buf @ [NL] @ tl (dropWhile (\<lambda>c. c \<noteq> NL) buf) = buf"
proof -
  have ne: "dropWhile (\<lambda>c. c \<noteq> NL) buf \<noteq> []" using assms by simp
  then have "hd (dropWhile (\<lambda>c. c \<noteq> NL) buf) = NL"
    using hd_dropWhile [of "\<lambda>c. c \<noteq> NL" buf] by simp
  then have "dropWhile (\<lambda>c. c \<noteq> NL) buf = NL # tl (dropWhile (\<lambda>c. c \<noteq> NL) buf)"
    using ne by (cases "dropWhile (\<lambda>c. c \<noteq> NL) buf") auto
  then have "takeWhile (\<lambda>c. c \<noteq> NL) buf @ [NL] @ tl (dropWhile (\<lambda>c. c \<noteq> NL) buf)
      = takeWhile (\<lambda>c. c \<noteq> NL) buf @ dropWhile (\<lambda>c. c \<noteq> NL) buf"
    by simp
  then show ?thesis by simp
qed

lemma takeWhile_no_boundary: "NL \<notin> set (takeWhile (\<lambda>c. c \<noteq> NL) buf)"
  using set_takeWhileD [of NL "\<lambda>c. c \<noteq> NL" buf] by blast


lemma split_loop_lines:
  "split_loop cb buf = (ds, rest) \<Longrightarrow>
     \<exists>raws. concat (map (\<lambda>r. r @ [NL]) raws) @ rest = buf \<and>
            (\<forall>r\<in>set raws. NL \<notin> set r) \<and> NL \<notin> set rest \<and>
            ds = (if cb then map Line (filter (\<lambda>l. l \<noteq> []) (map strip raws)) else [])"
proof (induction cb buf arbitrary: ds rest rule: split_loop.induct)
  case (1 cb buf)
  show ?case
  proof (cases "NL \<in> set buf")
    case False
    then have "ds = []" "rest = buf"
      using "1.prems" by (simp_all add: split_loop.simps [of cb buf])
    then show ?thesis using False by (intro exI [of _ "[]"]) simp
  next
    case True
    define line where "line = takeWhile (\<lambda>c. c \<noteq> NL) buf"
    define r where "r = tl (dropWhile (\<lambda>c. c \<noteq> NL) buf)"
    obtain ds' b' where rec: "split_loop cb r = (ds', b')" by (cases "split_loop cb r")
    have ds: "ds = (if strip line \<noteq> [] \<and> cb then [Line (strip line)] else []) @ ds'"
      and rest: "rest = b'"
      using "1.prems" True rec
      by (auto simp: split_loop.simps [of cb buf] line_def r_def Let_def)
    from "1.IH" [OF True refl refl refl rec [unfolded r_def]]
    obtain raws where raws:
      "concat (map (\<lambda>r. r @ [NL]) raws) @ b' = r"
      "\<forall>r\<in>set raws. NL \<notin> set r" "NL \<notin> set b'"
      "ds' = (if cb then map Line (filter (\<lambda>l. l \<noteq> []) (map strip raws)) else [])"
      unfolding r_def by blast
    have "line @ [NL] @ r = buf"
      unfolding line_def r_def by (rule split_at_boundary [OF True])
    then have "concat (map (\<lambda>r. r @ [NL]) (line # raws)) @ rest = buf"
      using raws(1) rest by simp
    moreover have "\<forall>r\<in>set (line # raws). NL \<notin> set r"
      using raws(2) takeWhile_no_boundary [of buf] by (simp add: line_def)
    moreover have "NL \<notin> set rest" using raws(3) rest by simp
    moreover have "ds = (if cb then map Line (filter (\<lambda>l. l \<noteq> []) (map strip (line # raws)))
                         else [])"
      using ds raws(4) by simp
    ultimately show ?thesis by blast
  qed
qed

lemma line_frames_append: "line_frames (xs @ ys) = line_frames xs @ line_frames ys"
  by (induction xs rule: line_frames.induct) simp_all

lemma line_frames_map_Line: "line_frames (map Line ls) = ls"
  by (induction ls) simp_all

lemma process_received_data_lines:
  assumes "process_received_data True buffer data = (ds, rest)"
  shows "\<exists>raws. concat (map (\<lambda>r. r @ [NL]) raws) @ rest = buffer @ data \<and>
            (\<forall>r\<in>set raws. NL \<notin> set r) \<and> NL \<notin> set rest \<and>
            line_frames ds = filter (\<lambda>l. l \<noteq> []) (map strip raws)"
proof -
  obtain ls b where sl: "split_loop True (buffer @ data) = (ls, b)"
    by (cases "split_loop True (buffer @ data)")
  then have ds: "ds = ls @ (if data \<noteq> [] then [Raw data] else [])" and rest: "rest = b"
    using assms by (auto simp: process_received_data_def)
  from split_loop_lines [OF sl] obtain raws where raws:
    "concat (map (\<lambda>r. r @ [NL]) raws) @ b = buffer @ data"
    "\<forall>r\<in>set raws. NL \<notin> set r" "NL \<notin> set b"
    "ls = map Line (filter (\<lambda>l. l \<noteq> []) (map strip raws))"
    by auto
  have "line_frames ds = filter (\<lambda>l. l \<noteq> []) (map strip raws)"
    using ds raws(4) by (simp add: line_frames_append line_frames_map_Line)
  then show ?thesis using raws rest by blast
qed

lemma feed_all_lines:
  "feed_all True buffer chunks = (ds, rest) \<Longrightarrow> NL \<notin> set buffer \<Longrightarrow>
     \<exists>raws. concat (map (\<lambda>r. r @ [NL]) raws) @ rest = buffer @ concat chunks \<and>
            (\<forall>r\<in>set raws. NL \<notin> set r) \<and> NL \<notin> set rest \<and>
            line_frames ds = filter (\<lambda>l. l \<noteq> []) (map strip raws)"
proof (induction chunks arbitrary: buffer ds rest)
  case Nil
  then show ?case by (intro exI [of _ "[]"]) simp
next
  case (Cons data chunks)
  obtain d1 b1 where p: "process_received_data True buffer data = (d1, b1)"
    by (cases "process_received_data True buffer data")
  obtain d2 b2 where f: "feed_all True b1 chunks = (d2, b2)"
    by (cases "feed_all True b1 chunks")
  have ds: "ds = d1 @ d2" and rest: "rest = b2"
    using Cons.prems(1) p f by simp_all
  from process_received_data_lines [OF p] obtain r1 where r1:
    "concat (map (\<lambda>r. r @ [NL]) r1) @ b1 = buffer @ data"
    "\<forall>r\<in>set r1. NL \<notin> set r" "NL \<notin> set b1"
    "line_frames d1 = filter (\<lambda>l. l \<noteq> []) (map strip r1)"
    by blast
  from Cons.IH [OF f r1(3)] obtain r2 where r2:
    "concat (map (\<lambda>r. r @ [NL]) r2) @ b2 = b1 @ concat chunks"
    "\<forall>r\<in>set r2. NL \<notin> set r" "NL \<notin> set b2"
    "line_frames d2 = filter (\<lambda>l. l \<noteq> []) (map strip r2)"
    by blast
  have "concat (map (\<lambda>r. r @ [NL]) (r1 @ r2)) @ rest
      = concat (map (\<lambda>r. r @ [NL]) r1) @ (concat (map (\<lambda>r. r @ [NL]) r2) @ b2)"
    using rest by simp
  also have "\<dots> = (concat (map (\<lambda>r. r @ [NL]) r1) @ b1) @ concat chunks"
    using r2(1) by simp
  also have "\<dots> = buffer @ concat (data # chunks)"
    using r1(1) by simp
  finally have "concat (map (\<lambda>r. r @ [NL]) (r1 @ r2)) @ rest = buffer @ concat (data # chunks)" .
  moreover have "\<forall>r\<in>set (r1 @ r2). NL \<notin> set r" using r1(2) r2(2) by auto
  moreover have "NL \<notin> set rest" using r2(3) rest by simp
  moreover have "line_frames ds = filter (\<lambda>l. l \<noteq> []) (map strip (r1 @ r2))"
    using ds r1(4) r2(4) by (simp add: line_frames_append)
  ultimately show ?case by blast
qed










section \<open>Properties of the controller\<close>

declare digits.simps [simp del]
declare reconnection_loop.simps [simp del]

text \<open>
  C10. A connectivity notification overwrites the machine state whatever it was:
  \<open>Connected\<close> when the connection is established, \<open>Disconnected\<close> when it is lost;
  the connection flag follows the notification.
\<close>

theorem handle_connection_change_overwrites:
  "machine_state (handle_connection_change True c) = ''Connected'' \<and>
   is_connected (handle_connection_change True c) \<and>
   machine_state (handle_connection_change False c) = ''Disconnected'' \<and>
   \<not> is_connected (handle_connection_change False c)"
  by (simp add: handle_connection_change_def)

theorem handle_connection_change_overwrites_witness:
  "machine_state ((connected_controller (filled_plotter 0))\<lparr>machine_state := ''Opening''\<rparr>)
     = ''Opening'' \<and>
   machine_state (handle_connection_change True
     ((connected_controller (filled_plotter 0))\<lparr>machine_state := ''Opening''\<rparr>)) = ''Connected'' \<and>
   machine_state (handle_connection_change False
     ((connected_controller (filled_plotter 0))\<lparr>machine_state := ''Turboset Running''\<rparr>))
     = ''Disconnected''"
  using handle_connection_change_overwrites
    [of "(connected_controller (filled_plotter 0))\<lparr>machine_state := ''Opening''\<rparr>"]
    handle_connection_change_overwrites
    [of "(connected_controller (filled_plotter 0))\<lparr>machine_state := ''Turboset Running''\<rparr>"]
  by simp

lemma not_connected_handler: "\<not> handler_connected c \<Longrightarrow> \<not> handler_is_connected c"
  by (simp add: handler_is_connected_def)

lemma send_command_rejected:
  assumes "\<not> handler_is_connected c"
  shows "send_command command c = (False, handle_connection_error c)"
  using assms by (simp add: send_command_def)

lemma handle_connection_error_effect:
  "\<not> handler_connected (handle_connection_error c)"
  "\<not> is_connected (handle_connection_error c)"
  "machine_state (handle_connection_error c) = ''Disconnected''"
  "io_trace (handle_connection_error c) = io_trace c"
  "wire (handle_connection_error c) = wire c"
  "port (handle_connection_error c) = port c"
  "reconnect_threads (handle_connection_error c) = reconnect_threads c + 1"
  "dialogs (handle_connection_error c) = dialogs c"
  by (simp_all add: handle_connection_error_def handle_connection_change_def Let_def)

text \<open>With the handler not connected, no command writes to the port.\<close>

lemma issue_writes_nothing:
  assumes "\<not> handler_is_connected c"
  shows "wire (issue cmd c) = wire c"
proof -
  have s: "\<And>command c'. wire c' = wire c \<Longrightarrow> \<not> handler_is_connected c' \<Longrightarrow>
      wire (snd (send_command command c')) = wire c"
    by (simp add: send_command_rejected handle_connection_error_effect)
  have t: "\<not> handler_is_connected
      (c\<lparr>dialogs := dialogs c @ [AskYesNo ''Confirm'' ''Start Turboset automated routine?'']\<rparr>)"
    using assms by (simp add: handler_is_connected_def)
  show ?thesis
    using assms s [of c] s [OF _ t] 
    by (cases cmd)
       (simp_all add: open_command_def close_command_def stop_command_def zero_command_def
          turboset_command_def set_motor_speed_def send_custom_command_def Let_def)
qed

text \<open>
  What a command does when its own test finds no connection: the controller's flag
  for Open, Close, Stop, Zero and Turboset, the handler for SetSpeed and Custom.
\<close>

lemma issue_rejected:
  assumes "\<not> handler_is_connected c" and "asks_handler cmd \<or> \<not> is_connected c"
  shows "io_trace (issue cmd c) = io_trace c"
    and "reconnect_threads (issue cmd c) = reconnect_threads c"
    and "machine_state (issue cmd c) = machine_state c"
    and "is_connected (issue cmd c) = is_connected c"
    and "handler_connected (issue cmd c) = handler_connected c"
    and "connection (issue cmd c) = connection c"
    and "dialogs (issue cmd c) = dialogs c @
          [if valid_parameter cmd then
             (if asks_handler cmd
              then ShowWarning ''Not Connected'' ''Please connect to a device first''
              else ShowError ''Error'' ''Not connected to Arduino'')
           else ShowWarning ''Invalid Speed'' ''Speed must be between 1 and 200 RPM'']"
  using assms
  by (cases cmd;
      simp add: open_command_def close_command_def stop_command_def zero_command_def
        turboset_command_def set_motor_speed_def send_custom_command_def)+





section \<open>Properties of the dispatcher\<close>




















section \<open>Properties of the safety monitor\<close>

text \<open>
  C9, as the code has it. With the default limits (\<open>max_load = 10000\<close>), checking the
  load 15000 at position 0 finds exactly one violation, the load above its maximum,
  and checking load 0 at position 0 finds none. Whenever a check finds violations,
  every registered callback is called once, in order of registration, with the whole
  list of violations; when it finds none, no callback is called. The check runs when
  \<open>check_safety_limits\<close> is called.
\<close>

theorem check_safety_limits_reports:
  "check_safety_limits (Finite 15000) (Finite 0) (default_monitor cbs)
     = (False, map (\<lambda>callback. (callback, [LoadExceeded (Finite 15000) (Finite 10000)])) cbs) \<and>
   violations_of (Finite 15000) (Finite 0) (default_monitor cbs)
     = [LoadExceeded (Finite 15000) (Finite 10000)] \<and>
   check_safety_limits (Finite 0) (Finite 0) (default_monitor cbs) = (True, []) \<and>
   map fst (snd (check_safety_limits load position m))
     = (if violations_of load position m = [] then [] else safety_callbacks m) \<and>
   (\<forall>call\<in>set (snd (check_safety_limits load position m)).
      snd call = violations_of load position m) \<and>
   fst (check_safety_limits load position m) = (violations_of load position m = [])"
  by (auto simp: check_safety_limits_def violations_of_def default_monitor_def Let_def comp_def)

theorem check_safety_limits_reports_witness:
  "check_safety_limits (Finite 15000) (Finite 0) (default_monitor [1 :: nat, 2])
     = (False, [(1, [LoadExceeded (Finite 15000) (Finite 10000)]),
                (2, [LoadExceeded (Finite 15000) (Finite 10000)])]) \<and>
   check_safety_limits (Finite 0) (Finite 200) (default_monitor [1 :: nat])
     = (False, [(1, [PositionExceeded (Finite 200) (Finite 100)])])"
  using check_safety_limits_reports
    [where cbs = "[1 :: nat, 2]" and load = "Finite 0" and position = "Finite 200"
      and m = "default_monitor [1 :: nat]"]
  by (simp add: check_safety_limits_def violations_of_def default_monitor_def)

text \<open>
  C9 as stated fails in its last part: a sample is recorded with no safety check.
  The frame \<open>LOAD:15000\<close>, received while plotting, puts the load 15000 into the
  series, and the new state differs from the old one in the load and the series
  only; the same load and position violate the default limits.
\<close>

theorem recorded_sample_not_checked:
  "handle_serial_data read_decimal read_int (Finite 1) ''LOAD:15000''
     (connected_controller (filled_plotter 0))
   = (connected_controller (filled_plotter 0))
       \<lparr>load_value := Finite 15000,
        graph_plotter := (filled_plotter 0)
          \<lparr>time_data := [Finite 1], load_data := [Finite 15000], position_data := [Finite 0],
           stress_data := [Finite 15000], strain_data := [Finite 0],
           displacement_data := [Finite 0]\<rparr>\<rparr> \<and>
   fst (check_safety_limits (Finite 15000) (Finite 0) (default_monitor [0 :: nat])) = False"
proof -
  have r: "fl_round 15000 = Finite 15000" "fl_round 0 = Finite 0"
    by code_simp+
  show ?thesis
    by (simp add: handle_serial_data_def dispatch_def startswith_def field1_def
        record_latest_def connected_controller_def initial_controller_def filled_plotter_def
        add_data_point_def calc_stress_def calc_strain_def read_decimal_def
        read_unsigned_def digit_value_def check_safety_limits_def violations_of_def
        default_monitor_def r)
qed

section \<open>Properties of the reconnection\<close>

lemma count_opens_append: "count_opens (xs @ ys) = count_opens xs + count_opens ys"
  by (induction xs rule: count_opens.induct) simp_all

lemma delayed_Sleep: "delayed es \<Longrightarrow> delayed (Sleep d # es)"
  by (cases es rule: delayed.cases) simp_all

lemma connect_effect:
  assumes "\<not> handler_connected c"
  shows "io_trace (snd (connect p b r c)) =
           io_trace c @ OpenPort p b # (case r of OpenRaises \<Rightarrow> [] | Opened k \<Rightarrow> [Sleep 2])"
    and "reconnect_threads (snd (connect p b r c)) = reconnect_threads c"
    and "fst (connect p b r c) = (\<not> open_fails r)"
    and "handler_connected (snd (connect p b r c)) = (\<not> open_fails r)"
    and "is_connected (snd (connect p b r c)) = (\<not> open_fails r)"
    and "open_fails r \<Longrightarrow> machine_state (snd (connect p b r c)) = ''Disconnected''"
    and "wire (snd (connect p b r c)) = wire c"
  using assms
  by (cases r; simp add: connect_def handle_connection_change_def Let_def)+

lemma reconnection_loop_trace:
  "\<exists>ext. io_trace (reconnection_loop env p a c) = io_trace c @ ext \<and>
         count_opens ext \<le> 3 - a \<and> delayed ext \<and>
         reconnect_threads (reconnection_loop env p a c) = reconnect_threads c \<and>
         wire (reconnection_loop env p a c) = wire c \<and>
         ((\<forall>n. open_fails (env n)) \<and> \<not> handler_connected c \<and> \<not> is_connected c \<and>
          machine_state c = ''Disconnected'' \<longrightarrow>
            \<not> handler_connected (reconnection_loop env p a c) \<and>
            \<not> is_connected (reconnection_loop env p a c) \<and>
            machine_state (reconnection_loop env p a c) = ''Disconnected'' \<and>
            count_opens ext = 3 - a)"
proof (induction env p a c rule: reconnection_loop.induct)
  case (1 env p attempt c)
  show ?case
  proof (cases "attempt < 3 \<and> \<not> handler_connected c")
    case False
    then have "reconnection_loop env p attempt c = c"
      by (subst reconnection_loop.simps) auto
    then show ?thesis using False by (intro exI [of _ "[]"]) auto
  next
    case True
    define c1 where "c1 = c\<lparr>io_trace := io_trace c @ [Sleep 2]\<rparr>"
    define r where "r = env (attempt + 1)"
    define c2 where "c2 = snd (connect p (baudrate c1) r c1)"
    have nc: "\<not> handler_connected c1" using True by (simp add: c1_def)
    define tail where "tail = (case r of OpenRaises \<Rightarrow> [] | Opened k \<Rightarrow> [Sleep 2])"
    have tr: "io_trace c2 = io_trace c @ Sleep 2 # OpenPort p (baudrate c1) # tail"
      using connect_effect(1) [OF nc, where p = p and b = "baudrate c1" and r = r]
      by (simp add: c2_def c1_def tail_def)
    have th: "reconnect_threads c2 = reconnect_threads c" "wire c2 = wire c"
      using connect_effect(2,7) [OF nc, where p = p and b = "baudrate c1" and r = r] by (simp_all add: c2_def c1_def)
    have st: "open_fails r \<Longrightarrow>
        \<not> handler_connected c2 \<and> \<not> is_connected c2 \<and> machine_state c2 = ''Disconnected''"
      using connect_effect(4,5,6) [OF nc, where p = p and b = "baudrate c1" and r = r] by (simp add: c2_def)
    have okr: "fst (connect p (baudrate c1) r c1) = (\<not> open_fails r)"
      using connect_effect(3) [OF nc, where p = p and b = "baudrate c1" and r = r] by simp
    have tail_cases: "tail = [] \<or> tail = [Sleep 2]"
      by (cases r) (simp_all add: tail_def)
    have unfold: "reconnection_loop env p attempt c =
        (if fst (connect p (baudrate c1) r c1) then c2
         else reconnection_loop env p (attempt + 1) c2)"
      using True
      by (subst reconnection_loop.simps)
         (simp add: c1_def c2_def r_def Let_def split: prod.splits)
    show ?thesis
    proof (cases "fst (connect p (baudrate c1) r c1)")
      case ok: True
      have "delayed (Sleep 2 # OpenPort p (baudrate c1) # tail)"
        using tail_cases by auto
      moreover have "count_opens (Sleep 2 # OpenPort p (baudrate c1) # tail) \<le> 3 - attempt"
        using tail_cases True by auto
      moreover have "\<not> (\<forall>n. open_fails (env n))"
        using ok okr by (auto simp: r_def)
      ultimately show ?thesis
        using unfold ok tr th by (intro exI [of _ "Sleep 2 # OpenPort p (baudrate c1) # tail"]) auto
    next
      case fail: False
      have f: "\<not> fst (connect p (baudrate (c\<lparr>io_trace := io_trace c @ [Sleep 2]\<rparr>))
                  (env (attempt + 1)) (c\<lparr>io_trace := io_trace c @ [Sleep 2]\<rparr>))"
        using fail by (simp add: c1_def r_def)
      from "1.IH" [OF True refl refl refl prod.collapse f]
      obtain ext where ext:
        "io_trace (reconnection_loop env p (attempt + 1) c2) = io_trace c2 @ ext"
        "count_opens ext \<le> 3 - (attempt + 1)" "delayed ext"
        "reconnect_threads (reconnection_loop env p (attempt + 1) c2) = reconnect_threads c2"
        "wire (reconnection_loop env p (attempt + 1) c2) = wire c2"
        "(\<forall>n. open_fails (env n)) \<and> \<not> handler_connected c2 \<and> \<not> is_connected c2 \<and>
          machine_state c2 = ''Disconnected'' \<longrightarrow>
            \<not> handler_connected (reconnection_loop env p (attempt + 1) c2) \<and>
            \<not> is_connected (reconnection_loop env p (attempt + 1) c2) \<and>
            machine_state (reconnection_loop env p (attempt + 1) c2) = ''Disconnected'' \<and>
            count_opens ext = 3 - (attempt + 1)"
        unfolding c2_def c1_def r_def by blast
      have d: "delayed (Sleep 2 # OpenPort p (baudrate c1) # tail @ ext)"
        using tail_cases ext(3) delayed_Sleep [of ext 2] by auto
      have n: "count_opens (Sleep 2 # OpenPort p (baudrate c1) # tail @ ext) \<le> 3 - attempt"
        using tail_cases ext(2) True by (auto simp: count_opens_append)
      have allfail: "(\<forall>n. open_fails (env n)) \<Longrightarrow>
            \<not> handler_connected (reconnection_loop env p (attempt + 1) c2) \<and>
            \<not> is_connected (reconnection_loop env p (attempt + 1) c2) \<and>
            machine_state (reconnection_loop env p (attempt + 1) c2) = ''Disconnected'' \<and>
            count_opens (Sleep 2 # OpenPort p (baudrate c1) # tail @ ext) = 3 - attempt"
        using ext(6) st tail_cases True by (auto simp: r_def count_opens_append)
      show ?thesis
        using unfold fail tr th ext(1,4,5) d n allfail
        by (intro exI [of _ "Sleep 2 # OpenPort p (baudrate c1) # tail @ ext"]) auto
    qed
  qed
qed

lemma step_settled:
  assumes "\<not> is_connected c" and "\<not> handler_connected c"
  shows "\<not> is_connected (step py_float py_int now e c)"
    and "\<not> handler_connected (step py_float py_int now e c)"
    and "io_trace (step py_float py_int now e c) = io_trace c"
    and "reconnect_threads (step py_float py_int now e c) = reconnect_threads c"
    and "wire (step py_float py_int now e c) = wire c"
    and "machine_state c = ''Disconnected'' \<Longrightarrow>
           machine_state (step py_float py_int now e c) = ''Disconnected''"
proof -
  have h: "\<not> handler_is_connected c"
    by (rule not_connected_handler [OF assms(2)])
  have g: "\<And>cmd. asks_handler cmd \<or> \<not> is_connected c"
    using assms(1) by simp
  note r = issue_rejected [OF h g] issue_writes_nothing [OF h]
  show "\<not> is_connected (step py_float py_int now e c)"
    using assms h r
    by (cases e;
        simp add: test_connection_def get_motor_speed_def send_custom_command_def
          disconnect_serial_def disconnect_def handle_connection_change_def monitor_poll_def
          read_loop_step_def Let_def split: option.splits)
  show "\<not> handler_connected (step py_float py_int now e c)"
    using assms h r
    by (cases e;
        simp add: test_connection_def get_motor_speed_def send_custom_command_def
          disconnect_serial_def disconnect_def handle_connection_change_def monitor_poll_def
          read_loop_step_def Let_def split: option.splits)
  show "io_trace (step py_float py_int now e c) = io_trace c"
    using assms h r
    by (cases e;
        simp add: test_connection_def get_motor_speed_def send_custom_command_def
          disconnect_serial_def disconnect_def handle_connection_change_def monitor_poll_def
          read_loop_step_def Let_def split: option.splits)
  show "reconnect_threads (step py_float py_int now e c) = reconnect_threads c"
    using assms h r
    by (cases e;
        simp add: test_connection_def get_motor_speed_def send_custom_command_def
          disconnect_serial_def disconnect_def handle_connection_change_def monitor_poll_def
          read_loop_step_def Let_def split: option.splits)
  show "wire (step py_float py_int now e c) = wire c"
    using assms h r
    by (cases e;
        simp add: test_connection_def get_motor_speed_def send_custom_command_def
          disconnect_serial_def disconnect_def handle_connection_change_def monitor_poll_def
          read_loop_step_def Let_def split: option.splits)
  show "machine_state c = ''Disconnected'' \<Longrightarrow>
      machine_state (step py_float py_int now e c) = ''Disconnected''"
    using assms h r
    by (cases e;
        simp add: test_connection_def get_motor_speed_def send_custom_command_def
          disconnect_serial_def disconnect_def handle_connection_change_def monitor_poll_def
          read_loop_step_def Let_def split: option.splits)
qed

lemma run_settled:
  "\<not> is_connected c \<Longrightarrow> \<not> handler_connected c \<Longrightarrow>
     io_trace (run py_float py_int now evs c) = io_trace c \<and>
     reconnect_threads (run py_float py_int now evs c) = reconnect_threads c \<and>
     wire (run py_float py_int now evs c) = wire c \<and>
     \<not> is_connected (run py_float py_int now evs c) \<and>
     \<not> handler_connected (run py_float py_int now evs c) \<and>
     (machine_state c = ''Disconnected'' \<longrightarrow>
        machine_state (run py_float py_int now evs c) = ''Disconnected'')"
proof (induction evs arbitrary: c)
  case Nil
  then show ?case by simp
next
  case (Cons e evs)
  note s = step_settled [OF Cons.prems, of py_float py_int now e]
  from Cons.IH [OF s(1) s(2)] s show ?case by simp
qed

text \<open>
  C7. Handling a connection failure starts one reconnection thread, and that thread
  opens the port at most 3 times, each time right after a sleep of 2 seconds, and
  writes nothing. When every attempt fails, the thread ends with the handler and the
  controller not connected and the machine state \<open>Disconnected\<close>, after exactly 3
  attempts if a port is known; from then on, whatever the operator and the reading
  loops do short of an explicit connect, the port is not opened again, no
  reconnection thread is started and the machine state stays \<open>Disconnected\<close>.
\<close>

theorem reconnection_bounded:
  "\<exists>ext. io_trace (attempt_reconnection env (handle_connection_error c)) = io_trace c @ ext \<and>
         count_opens ext \<le> 3 \<and> delayed ext \<and>
         wire (attempt_reconnection env (handle_connection_error c)) = wire c \<and>
         reconnect_threads (attempt_reconnection env (handle_connection_error c))
           = reconnect_threads c + 1 \<and>
         ((\<forall>n. open_fails (env n)) \<longrightarrow>
            machine_state (attempt_reconnection env (handle_connection_error c)) = ''Disconnected'' \<and>
            \<not> is_connected (attempt_reconnection env (handle_connection_error c)) \<and>
            \<not> handler_connected (attempt_reconnection env (handle_connection_error c)) \<and>
            ((\<exists>p. port c = Some p \<and> p \<noteq> []) \<longrightarrow> count_opens ext = 3) \<and>
            (\<forall>evs.
               io_trace (run py_float py_int now evs
                           (attempt_reconnection env (handle_connection_error c)))
                 = io_trace (attempt_reconnection env (handle_connection_error c)) \<and>
               reconnect_threads (run py_float py_int now evs
                           (attempt_reconnection env (handle_connection_error c)))
                 = reconnect_threads (attempt_reconnection env (handle_connection_error c)) \<and>
               machine_state (run py_float py_int now evs
                           (attempt_reconnection env (handle_connection_error c)))
                 = ''Disconnected''))"
proof -
  define c1 where "c1 = handle_connection_error c"
  define c2 where "c2 = attempt_reconnection env c1"
  note e = handle_connection_error_effect [of c, folded c1_def]
  have stable: "\<not> is_connected c2 \<Longrightarrow> \<not> handler_connected c2 \<Longrightarrow>
      machine_state c2 = ''Disconnected'' \<Longrightarrow>
      \<forall>evs. io_trace (run py_float py_int now evs c2) = io_trace c2 \<and>
            reconnect_threads (run py_float py_int now evs c2) = reconnect_threads c2 \<and>
            machine_state (run py_float py_int now evs c2) = ''Disconnected''"
    using run_settled [of c2 py_float py_int now] by blast
  show ?thesis
  proof (cases "\<exists>p. port c = Some p \<and> p \<noteq> []")
    case False
    then have same: "c2 = c1"
      using e(6) by (auto simp: c2_def attempt_reconnection_def split: option.splits)
    have "io_trace c2 = io_trace c @ []" "count_opens [] \<le> 3" "delayed []"
      "wire c2 = wire c" "reconnect_threads c2 = reconnect_threads c + 1"
      "machine_state c2 = ''Disconnected''" "\<not> is_connected c2" "\<not> handler_connected c2"
      using e same by simp_all
    then show ?thesis
      using stable False unfolding c2_def c1_def by (intro exI [of _ "[]"]) blast
  next
    case True
    then obtain p where p: "port c = Some p" "p \<noteq> []" by blast
    then have loop: "c2 = reconnection_loop env p 0 c1"
      using e(6) by (simp add: c2_def attempt_reconnection_def)
    from reconnection_loop_trace [of env p 0 c1] obtain ext where ext:
      "io_trace c2 = io_trace c1 @ ext" "count_opens ext \<le> 3" "delayed ext"
      "reconnect_threads c2 = reconnect_threads c1" "wire c2 = wire c1"
      "(\<forall>n. open_fails (env n)) \<longrightarrow>
         \<not> handler_connected c2 \<and> \<not> is_connected c2 \<and> machine_state c2 = ''Disconnected'' \<and>
         count_opens ext = 3"
      using e(1,2,3) unfolding loop by auto
    have "io_trace c2 = io_trace c @ ext" "wire c2 = wire c"
      "reconnect_threads c2 = reconnect_threads c + 1"
      using ext(1,4,5) e by simp_all
    then show ?thesis
      using ext(2,3,6) stable unfolding c2_def c1_def by (intro exI [of _ ext]) blast
  qed
qed

theorem reconnection_bounded_witness:
  "open_fails (never_opens 1) \<and> port (connected_controller (filled_plotter 0)) = Some ''COM3'' \<and>
   io_trace (attempt_reconnection never_opens
     (handle_connection_error (connected_controller (filled_plotter 0))))
     = [Sleep 2, OpenPort ''COM3'' 9600, Sleep 2, OpenPort ''COM3'' 9600,
        Sleep 2, OpenPort ''COM3'' 9600] \<and>
   machine_state (attempt_reconnection never_opens
     (handle_connection_error (connected_controller (filled_plotter 0)))) = ''Disconnected'' \<and>
   reconnect_threads (run read_decimal read_int (Finite 0)
     [Issue Open, MonitorPoll True, ReadLoop SerialException, GetSpeed]
     (attempt_reconnection never_opens
       (handle_connection_error (connected_controller (filled_plotter 0))))) = 1"
proof -
  have t: "attempt_reconnection never_opens
      (handle_connection_error (connected_controller (filled_plotter 0)))
    = (connected_controller (filled_plotter 0))
        \<lparr>machine_state := ''Disconnected'', is_connected := False, connection := None,
         handler_connected := False, reconnect_threads := 1,
         io_trace := [Sleep 2, OpenPort ''COM3'' 9600, Sleep 2, OpenPort ''COM3'' 9600,
                      Sleep 2, OpenPort ''COM3'' 9600]\<rparr>"
    by (simp add: attempt_reconnection_def reconnection_loop.simps connect_def never_opens_def
        handle_connection_error_def handle_connection_change_def connected_controller_def
        initial_controller_def Let_def)
  have a: "io_trace (attempt_reconnection never_opens
      (handle_connection_error (connected_controller (filled_plotter 0))))
     = [Sleep 2, OpenPort ''COM3'' 9600, Sleep 2, OpenPort ''COM3'' 9600,
        Sleep 2, OpenPort ''COM3'' 9600]"
    and b: "machine_state (attempt_reconnection never_opens
      (handle_connection_error (connected_controller (filled_plotter 0)))) = ''Disconnected''"
    by (simp_all add: t)
  have r: "reconnect_threads (run read_decimal read_int (Finite 0)
     [Issue Open, MonitorPoll True, ReadLoop SerialException, GetSpeed]
     (attempt_reconnection never_opens
       (handle_connection_error (connected_controller (filled_plotter 0))))) = 1"
    by (subst t)
       (simp add: connected_controller_def initial_controller_def
          open_command_def monitor_poll_def read_loop_step_def get_motor_speed_def
          send_custom_command_def handler_is_connected_def)
  have o: "open_fails (never_opens 1)"
    "port (connected_controller (filled_plotter 0)) = Some ''COM3''"
    by (simp_all add: never_opens_def connected_controller_def)
  from reconnection_bounded [of never_opens "connected_controller (filled_plotter 0)"
        read_decimal read_int "Finite 0"] a b r o
  show ?thesis by blast
qed

section \<open>Properties of the float arithmetic\<close>

lemma bin_up_bounds:
  "1 \<le> x \<Longrightarrow> x < 2 ^ k \<Longrightarrow> e \<le> bin_up fuel x e \<and> bin_up fuel x e < e + int k"
proof (induction fuel arbitrary: x e k)
  case 0
  then have "k \<noteq> 0" by (cases k) auto
  then show ?case by simp
next
  case (Suc fuel)
  have k0: "k \<noteq> 0" using Suc.prems by (cases k) auto
  show ?case
  proof (cases "2 \<le> x")
    case True
    then obtain j where j: "k = Suc j" using k0 by (cases k) auto
    have "1 \<le> x / 2" "x / 2 < 2 ^ j" using True Suc.prems(2) by (simp_all add: j)
    from Suc.IH [OF this, of "e + 1"] True show ?thesis by (simp add: j)
  next
    case False
    then show ?thesis using k0 by simp
  qed
qed

lemma bin_down_bounds:
  "bin_down fuel x e \<le> e \<and> e - int fuel \<le> bin_down fuel x e"
proof (induction fuel arbitrary: x e)
  case 0
  then show ?case by simp
next
  case (Suc fuel)
  from Suc.IH [of "x * 2" "e - 1"] show ?case by simp
qed

lemma binade_bounds:
  assumes "x < 2 ^ k" and "0 < k"
  shows "- 1022 \<le> binade x \<and> binade x < int k"
proof (cases "1 \<le> x")
  case True
  from bin_up_bounds [OF True assms(1), of 0 1024] show ?thesis
    using True by (simp add: binade_def)
next
  case False
  from bin_down_bounds [of 1022 x 0] show ?thesis
    using False assms(2) by (simp add: binade_def)
qed

lemma round_half_even_of_int: "round_half_even (of_int k) = k"
  by (simp add: round_half_even_def)

lemma round_half_even_lower: "of_int k \<le> q \<Longrightarrow> k \<le> round_half_even q"
proof -
  assume "of_int k \<le> q"
  then have "k \<le> \<lfloor>q\<rfloor>" by (simp add: le_floor_iff)
  then show ?thesis by (auto simp: round_half_even_def Let_def)
qed

lemma round_half_even_upper:
  assumes "q < of_int K - 1 / 2"
  shows "round_half_even q < K"
proof -
  have "q < of_int K" using assms by simp
  then have f: "\<lfloor>q\<rfloor> < K" by (simp add: floor_less_iff)
  show ?thesis
  proof (cases "\<lfloor>q\<rfloor> = K - 1")
    case True
    then have "q - of_int \<lfloor>q\<rfloor> < 1 / 2" using assms by simp
    then show ?thesis using True by (simp add: round_half_even_def Let_def)
  next
    case False
    then have "\<lfloor>q\<rfloor> + 1 < K" using f by simp
    then show ?thesis by (auto simp: round_half_even_def Let_def)
  qed
qed

lemma pow2_negative: "e < 0 \<Longrightarrow> pow2 e = 1 / 2 ^ nat (- e)"
  by (simp add: pow2_def)

lemma fl_round_eq:
  "x \<noteq> 0 \<Longrightarrow>
   y = of_int (round_half_even (x / pow2 (binade \<bar>x\<bar> - 52))) * pow2 (binade \<bar>x\<bar> - 52) \<Longrightarrow>
   binade \<bar>y\<bar> \<noteq> 1024 \<Longrightarrow> fl_round x = Finite y"
  by (simp add: fl_round_def Let_def)

lemma fl_round_between:
  assumes "0 < x" and "x < 2 ^ 50" and "0 \<le> m" and "of_int m \<le> x"
    and "x \<le> of_int m + 1 - 1 / 2 ^ 3"
  shows "\<exists>y. fl_round x = Finite y \<and> of_int m \<le> y \<and> y < of_int m + 1"
proof -
  define e where "e = binade \<bar>x\<bar>"
  have eb: "- 1022 \<le> e" "e < 50"
    using binade_bounds [of "\<bar>x\<bar>" 50] assms(1,2) by (simp_all add: e_def)
  define k where "k = nat (52 - e)"
  have k13: "3 \<le> k" using eb by (simp add: k_def)
  have ulp: "pow2 (e - 52) = 1 / 2 ^ k"
    using eb pow2_negative [of "e - 52"] by (simp add: k_def)
  define n where "n = round_half_even (x / pow2 (e - 52))"
  define y where "y = of_int n * pow2 (e - 52)"
  have q: "x / pow2 (e - 52) = x * 2 ^ k" by (simp add: ulp)
  have "of_int (m * 2 ^ k) \<le> x * 2 ^ k"
    using assms(4) by (simp add: mult_right_mono)
  then have lo: "m * 2 ^ k \<le> n"
    unfolding n_def q by (rule round_half_even_lower)
  have "(2::real) ^ 3 \<le> 2 ^ k"
    using k13 by (intro power_increasing) simp_all
  then have one: "1 \<le> (2::real) ^ k / 2 ^ 3"
    by (simp add: field_simps)
  have "x * 2 ^ k \<le> (of_int m + 1 - 1 / 2 ^ 3) * 2 ^ k"
    using assms(5) by (simp add: mult_right_mono)
  also have "\<dots> = of_int ((m + 1) * 2 ^ k) - 2 ^ k / 2 ^ 3"
    by (simp add: algebra_simps)
  also have "\<dots> < of_int ((m + 1) * 2 ^ k) - 1 / 2"
    using one by simp
  finally have hi: "n < (m + 1) * 2 ^ k"
    unfolding n_def q by (rule round_half_even_upper)
  have y: "y = of_int n / 2 ^ k" by (simp add: y_def ulp)
  have "of_int (m * 2 ^ k) \<le> (of_int n :: real)" using lo by (simp only: of_int_le_iff)
  then have ylo: "of_int m \<le> y" by (simp add: y field_simps)
  have "(of_int n :: real) < of_int ((m + 1) * 2 ^ k)" using hi by (simp only: of_int_less_iff)
  then have yhi: "y < of_int m + 1" by (simp add: y field_simps)
  have "y < 2 ^ 51"
  proof -
    have "y < x + 1" using yhi assms(4) by simp
    also have "\<dots> < 2 ^ 50 + 2 ^ 50" using assms(2) by simp
    finally show ?thesis by simp
  qed
  moreover have "0 \<le> y" using ylo assms(3) by simp
  ultimately have "binade \<bar>y\<bar> < 51"
    using binade_bounds [of "\<bar>y\<bar>" 51] by simp
  then have "binade \<bar>y\<bar> \<noteq> 1024" by simp
  moreover have "x \<noteq> 0" using assms(1) by simp
  ultimately have "fl_round x = Finite y"
    using y_def [unfolded n_def e_def] by (intro fl_round_eq)
  then show ?thesis using ylo yhi by blast
qed

lemma fl_round_nat:
  assumes "n < 2 ^ 52"
  shows "fl_round (real n) = Finite (real n)"
proof (cases "n = 0")
  case True
  then show ?thesis by (simp add: fl_round_def)
next
  case False
  define x where "x = real n"
  have "real n < real (2 ^ 52)" using assms by (simp only: of_nat_less_iff)
  then have x: "0 < x" "x < 2 ^ 52" using False by (simp_all add: x_def)
  define e where "e = binade \<bar>x\<bar>"
  have eb: "- 1022 \<le> e" "e < 52"
    using binade_bounds [of "\<bar>x\<bar>" 52] x by (simp_all add: e_def)
  define k where "k = nat (52 - e)"
  have ulp: "pow2 (e - 52) = 1 / 2 ^ k"
    using eb pow2_negative [of "e - 52"] by (simp add: k_def)
  have "x / pow2 (e - 52) = of_int (int n * 2 ^ k)" by (simp add: ulp x_def)
  then have r: "round_half_even (x / pow2 (e - 52)) = int n * 2 ^ k"
    by (simp only: round_half_even_of_int)
  have "of_int (int n * 2 ^ k) * pow2 (e - 52) = x"
    by (simp add: ulp x_def)
  then have y: "x = of_int (round_half_even (x / pow2 (e - 52))) * pow2 (e - 52)"
    by (simp only: r)
  have "binade \<bar>x\<bar> \<noteq> 1024" using eb by (simp add: e_def)
  moreover have "x \<noteq> 0" using x(1) by simp
  ultimately have "fl_round x = Finite x"
    using y [unfolded e_def] by (intro fl_round_eq)
  then show ?thesis by (simp add: x_def)
qed

lemma linear_end_value:
  assumes "n < 2 ^ 52"
  shows "linear_end n = Inr (if n div 5 < 5 then min n 5 else n div 5)"
proof (cases "n = 0")
  case True
  then show ?thesis by (simp add: linear_end_def double_0_2_def fl_round_def)
next
  case False
  define m where "m = int (n div 5)"
  define x where "x = real n * (3602879701896397 / 2 ^ 54)"
  have nb: "real n < 2 ^ 52"
  proof -
    have "real n < real (2 ^ 52)" using assms by (simp only: of_nat_less_iff)
    then show ?thesis by simp
  qed
  have n0: "0 < real n" using False by simp
  have split: "real n = 5 * real (n div 5) + real (n mod 5)"
  proof -
    have a: "real (5 * (n div 5) + n mod 5) = 5 * real (n div 5) + real (n mod 5)"
      by (simp only: of_nat_add of_nat_mult of_nat_numeral)
    have b: "5 * (n div 5) + n mod 5 = n" by simp
    show ?thesis using a [unfolded b] .
  qed
  have r4: "real (n mod 5) \<le> 4"
  proof -
    have "n mod 5 \<le> 4" by simp
    then have "real (n mod 5) \<le> real 4" by (simp only: of_nat_le_iff)
    then show ?thesis by simp
  qed
  have m: "of_int m = real (n div 5)" by (simp add: m_def)
  have x0: "0 < x" using n0 by (simp add: x_def)
  have xb: "x < 2 ^ 50" using nb by (simp add: x_def)
  have m0: "0 \<le> m" by (simp add: m_def)
  have lo: "of_int m \<le> x"
    unfolding m x_def using split by simp
  have hi: "x \<le> of_int m + 1 - 1 / 2 ^ 3"
    unfolding m x_def using split r4 nb by simp
  from fl_round_between [OF x0 xb m0 lo hi] obtain y
    where y: "fl_round x = Finite y" "of_int m \<le> y" "y < of_int m + 1" by blast
  have fy: "\<lfloor>y\<rfloor> = m" using y(2,3) by (simp add: floor_eq_iff)
  have y0: "0 \<le> y" using y(2) m0 by simp
  have "fl_mul (fl_round (real n)) double_0_2 = Finite y"
    using fl_round_nat [OF assms] y(1) by (simp add: double_0_2_def x_def)
  then have "linear_end n = Inr (if m < 5 then min n 5 else nat m)"
    using fy y0 by (simp add: linear_end_def)
  then show ?thesis by (simp add: m_def)
qed


end
